theory Spec2Isabelle
  imports Main "HOL-Library.AList"
begin

section \<open>Data model of server.py\<close>

text \<open>
  The server keeps four process-wide dictionaries (\<open>connected_peers\<close>,
  \<open>transfer_requests\<close>, \<open>active_transfers\<close>, \<open>relay_sessions\<close>). A Python dictionary
  keeps insertion order and has distinct keys, so each one is an association list:
  \<open>d[k] = v\<close> is \<open>AList.update k v d\<close> (in place when the key exists, appended
  otherwise), \<open>d[k]['f'] = x\<close> on an existing key is \<open>AList.map_entry k\<close>, \<open>k in d\<close> is
  \<open>has_key k d\<close>.

  What the code takes from its environment is a parameter of the handler that uses it:
  \<open>datetime.now()\<close> (an instant, in microseconds), \<open>str(uuid.uuid4())\<close> (the identifier
  drawn), the outcome of \<open>file.save\<close>, werkzeug's \<open>secure_filename\<close>. \<open>sio.emit\<close>
  appends the event to \<open>outbox\<close>; \<open>files\<close> is the set of paths of the regular files
  under the upload folder.
\<close>

type_synonym time = int

datatype jv =
    JNull
  | JBool bool
  | JInt int
  | JStr string
  | JTime time
  | JList "jv list"
  | JObj "(string \<times> jv) list"

record peer =
  p_user_id :: string
  p_ip :: string
  p_connected_at :: time
  p_status :: string
  p_last_seen :: time
  p_socket_id :: "string option"
  p_disconnected_at :: "time option"

record transfer_request =
  q_sender_id :: string
  q_receiver_id :: string
  q_filename :: string
  q_status :: string
  q_created_at :: time

record active_transfer =
  t_request_id :: string
  t_status :: string
  t_progress :: int
  t_created_at :: time
  t_sender_id :: string
  t_receiver_id :: string
  t_filename :: string
  t_transfer_mode :: string
  t_file_path :: "string option"
  t_completed_at :: "time option"

record relay_session =
  r_sender_id :: "string option"
  r_receiver_id :: "string option"
  r_status :: string
  r_created_at :: time

datatype event = Emit string "(string \<times> jv) list" "string option"

record state =
  connected_peers :: "(string \<times> peer) list"
  transfer_requests :: "(string \<times> transfer_request) list"
  active_transfers :: "(string \<times> active_transfer) list"
  relay_sessions :: "(string \<times> relay_session) list"
  files :: "string set"
  outbox :: "event list"

record server_info =
  SERVER_ID :: string
  SERVER_IP :: string
  SERVER_PORT :: int
  SERVER_URL :: "string option"

datatype response = Json nat "(string \<times> jv) list" | SendFile string

definition UPLOAD_FOLDER :: string where
  "UPLOAD_FOLDER = ''transfers''"

definition STUN_SERVERS :: "string list" where
  "STUN_SERVERS = [''stun:stun.l.google.com:19302'', ''stun:stun1.l.google.com:19302'',
     ''stun:stun2.l.google.com:19302'']"

definition has_key :: "'k \<Rightarrow> ('k \<times> 'v) list \<Rightarrow> bool" where
  "has_key k d = (map_of d k \<noteq> None)"

definition keys :: "('k \<times> 'v) list \<Rightarrow> 'k set" where
  "keys d = fst ` set d"

definition jopt :: "string option \<Rightarrow> jv" where
  "jopt x = (case x of None \<Rightarrow> JNull | Some v \<Rightarrow> JStr v)"

definition jint :: "int option \<Rightarrow> jv" where
  "jint x = (case x of None \<Rightarrow> JNull | Some v \<Rightarrow> JInt v)"

definition emit :: "string \<Rightarrow> (string \<times> jv) list \<Rightarrow> string option \<Rightarrow> state \<Rightarrow> state" where
  "emit ev data room s = s\<lparr>outbox := outbox s @ [Emit ev data room]\<rparr>"

text \<open>
  \<open>pid in connected_peers and 'socket_id' in connected_peers[pid]\<close>, with the socket id
  read when the test holds. \<open>pid\<close> comes from \<open>data.get\<close>, so it may be \<open>None\<close>, which is
  no key of the dictionary.
\<close>

definition socket_of :: "string option \<Rightarrow> (string \<times> peer) list \<Rightarrow> string option" where
  "socket_of pid peers =
     (case pid of None \<Rightarrow> None
      | Some k \<Rightarrow> (case map_of peers k of None \<Rightarrow> None | Some pd \<Rightarrow> p_socket_id pd))"

text \<open>\<open>os.path.join\<close> of two components (posixpath).\<close>

definition os_path_join :: "string \<Rightarrow> string \<Rightarrow> string" where
  "os_path_join a b =
     (if b \<noteq> [] \<and> hd b = CHR ''/'' then b
      else if a = [] \<or> last a = CHR ''/'' then a @ b
      else a @ ''/'' @ b)"

section \<open>Socket.IO event handlers\<close>

definition connect :: "string \<Rightarrow> state \<Rightarrow> state" where
  "connect sid s = s"

text \<open>
  \<open>disconnect(sid)\<close> walks a snapshot of the items; \<open>now_at peer_id\<close> is the clock reading
  taken while \<open>peer_id\<close> is handled.
\<close>

fun disconnect_loop :: "string \<Rightarrow> (string \<Rightarrow> time) \<Rightarrow> (string \<times> peer) list \<Rightarrow> state \<Rightarrow> state" where
  "disconnect_loop sid now_at [] s = s"
| "disconnect_loop sid now_at ((peer_id, peer_data) # rest) s =
     disconnect_loop sid now_at rest
       (if p_socket_id peer_data = Some sid then
          emit ''peer_disconnected'' [(''peer_id'', JStr peer_id)] None
            (s\<lparr>connected_peers :=
                 AList.map_entry peer_id
                   (\<lambda>p. p\<lparr>p_status := ''offline'', p_disconnected_at := Some (now_at peer_id)\<rparr>)
                   (connected_peers s)\<rparr>)
        else s)"

definition disconnect :: "string \<Rightarrow> (string \<Rightarrow> time) \<Rightarrow> state \<Rightarrow> state" where
  "disconnect sid now_at s = disconnect_loop sid now_at (connected_peers s) s"

definition register_socket ::
  "string \<Rightarrow> string option \<Rightarrow> time \<Rightarrow> state \<Rightarrow> (string \<times> jv) list \<times> state" where
  "register_socket sid peer_id now s =
     (case peer_id of
        None \<Rightarrow> ([(''status'', JStr ''error''), (''message'', JStr ''Invalid peer ID'')], s)
      | Some pid \<Rightarrow>
          if pid \<noteq> [] \<and> has_key pid (connected_peers s) then
            ([(''status'', JStr ''success'')],
             s\<lparr>connected_peers :=
                 AList.map_entry pid (\<lambda>p. p\<lparr>p_socket_id := Some sid, p_last_seen := now\<rparr>)
                   (connected_peers s)\<rparr>)
          else ([(''status'', JStr ''error''), (''message'', JStr ''Invalid peer ID'')], s))"

text \<open>\<open>initiate_relay\<close>; \<open>session_id\<close> is the identifier drawn by \<open>uuid.uuid4()\<close>.\<close>

definition initiate_relay ::
  "string option \<Rightarrow> string option \<Rightarrow> string \<Rightarrow> time \<Rightarrow> state \<Rightarrow> string \<times> state" where
  "initiate_relay sender_peer_id receiver_peer_id session_id now s =
     (let s1 = s\<lparr>relay_sessions :=
                  AList.update session_id
                    \<lparr>r_sender_id = sender_peer_id, r_receiver_id = receiver_peer_id,
                     r_status = ''initiated'', r_created_at = now\<rparr>
                    (relay_sessions s)\<rparr>
      in case socket_of sender_peer_id (connected_peers s1) of
           Some sender_socket_id \<Rightarrow>
             (session_id,
              emit ''relay_initiated''
                [(''session_id'', JStr session_id), (''target_peer_id'', jopt receiver_peer_id)]
                (Some sender_socket_id) s1)
         | None \<Rightarrow> (session_id, s1))"

definition peer_signal ::
  "string option \<Rightarrow> string option \<Rightarrow> jv \<Rightarrow> string \<Rightarrow> time \<Rightarrow> state \<Rightarrow> (string \<times> jv) list \<times> state" where
  "peer_signal target_peer_id sender_peer_id signal_data session_id now s =
     (case socket_of target_peer_id (connected_peers s) of
        Some target_socket_id \<Rightarrow>
          ([(''status'', JStr ''success'')],
           emit ''peer_signal''
             [(''sender_peer_id'', jopt sender_peer_id), (''signal'', signal_data)]
             (Some target_socket_id) s)
      | None \<Rightarrow>
          ([(''status'', JStr ''relay''),
            (''message'', JStr ''Target peer unavailable, using relay'')],
           snd (initiate_relay sender_peer_id target_peer_id session_id now s)))"

text \<open>
  \<open>relay_chunk\<close>. \<open>index\<close> and \<open>total\<close> come from \<open>data.get\<close>: \<open>None\<close> when the key is
  absent. \<open>total_chunks - 1\<close> raises TypeError on \<open>None\<close>, after the chunk was emitted;
  the handler's \<open>except\<close> turns it into an error result.
\<close>

definition py_repr :: "string \<Rightarrow> string" where
  "py_repr x = CHR 0x27 # x @ [CHR 0x27]"

definition none_minus_int_message :: string where
  "none_minus_int_message =
     ''unsupported operand type(s) for -: '' @ py_repr ''NoneType'' @ '' and '' @ py_repr ''int''"

definition relay_chunk ::
  "string option \<Rightarrow> jv \<Rightarrow> int option \<Rightarrow> int option \<Rightarrow> state \<Rightarrow> (string \<times> jv) list \<times> state" where
  "relay_chunk session_id chunk_data chunk_index total_chunks s =
     (case session_id of
        None \<Rightarrow> ([(''status'', JStr ''error''), (''message'', JStr ''Invalid relay session'')], s)
      | Some sess \<Rightarrow>
         (case map_of (relay_sessions s) sess of
            None \<Rightarrow>
              ([(''status'', JStr ''error''), (''message'', JStr ''Invalid relay session'')], s)
          | Some rs \<Rightarrow>
             (case socket_of (r_receiver_id rs) (connected_peers s) of
                Some receiver_socket_id \<Rightarrow>
                  (let s1 = emit ''relay_chunk''
                              [(''session_id'', JStr sess), (''chunk'', chunk_data),
                               (''index'', jint chunk_index), (''total'', jint total_chunks)]
                              (Some receiver_socket_id) s
                   in case total_chunks of
                        None \<Rightarrow>
                          ([(''status'', JStr ''error''),
                            (''message'', JStr none_minus_int_message)], s1)
                      | Some tot \<Rightarrow>
                          (if chunk_index = Some (tot - 1) then
                             ([(''status'', JStr ''success'')],
                              s1\<lparr>relay_sessions :=
                                   AList.map_entry sess (\<lambda>r. r\<lparr>r_status := ''completed''\<rparr>)
                                     (relay_sessions s1)\<rparr>)
                           else ([(''status'', JStr ''success'')], s1)))
              | None \<Rightarrow>
                  ([(''status'', JStr ''queued''),
                    (''message'', JStr ''Receiver offline, chunk queued'')], s))))"

section \<open>HTTP handlers\<close>

text \<open>\<open>jsonify\<close> of a peer and of an active transfer: the keys the dictionary holds.\<close>

definition peer_json :: "peer \<Rightarrow> jv" where
  "peer_json p =
     JObj ([(''user_id'', JStr (p_user_id p)), (''ip'', JStr (p_ip p)),
            (''connected_at'', JTime (p_connected_at p)), (''status'', JStr (p_status p)),
            (''last_seen'', JTime (p_last_seen p))]
           @ (case p_socket_id p of None \<Rightarrow> [] | Some x \<Rightarrow> [(''socket_id'', JStr x)])
           @ (case p_disconnected_at p of None \<Rightarrow> [] | Some x \<Rightarrow> [(''disconnected_at'', JTime x)]))"

definition transfer_json :: "active_transfer \<Rightarrow> (string \<times> jv) list" where
  "transfer_json t =
     [(''request_id'', JStr (t_request_id t)), (''status'', JStr (t_status t)),
      (''progress'', JInt (t_progress t)), (''created_at'', JTime (t_created_at t)),
      (''sender_id'', JStr (t_sender_id t)), (''receiver_id'', JStr (t_receiver_id t)),
      (''filename'', JStr (t_filename t)), (''transfer_mode'', JStr (t_transfer_mode t))]
     @ (case t_file_path t of None \<Rightarrow> [] | Some x \<Rightarrow> [(''file_path'', JStr x)])
     @ (case t_completed_at t of None \<Rightarrow> [] | Some x \<Rightarrow> [(''completed_at'', JTime x)])"

definition get_status :: "server_info \<Rightarrow> state \<Rightarrow> response" where
  "get_status cfg s =
     Json 200
       [(''status'', JStr ''online''), (''server_id'', JStr (SERVER_ID cfg)),
        (''ip'', JStr (SERVER_IP cfg)), (''port'', JInt (SERVER_PORT cfg)),
        (''public_url'', jopt (SERVER_URL cfg)),
        (''connected_peers'', JInt (int (length (connected_peers s)))),
        (''active_transfers'', JInt (int (length (active_transfers s)))),
        (''stun_servers'', JList (map JStr STUN_SERVERS))]"

text \<open>
  \<open>connect_peer\<close>: \<open>user_id\<close> is \<open>None\<close> when the body is empty or has no such key;
  \<open>now1\<close> and \<open>now2\<close> are its two clock readings.
\<close>

definition connect_peer ::
  "server_info \<Rightarrow> string option \<Rightarrow> string \<Rightarrow> string \<Rightarrow> time \<Rightarrow> time \<Rightarrow> state \<Rightarrow> response \<times> state" where
  "connect_peer cfg user_id remote_addr peer_id now1 now2 s =
     (case user_id of
        None \<Rightarrow> (Json 400 [(''error'', JStr ''Missing required parameters'')], s)
      | Some uid \<Rightarrow>
          (Json 200
             [(''status'', JStr ''connected''), (''peer_id'', JStr peer_id),
              (''server_id'', JStr (SERVER_ID cfg)),
              (''stun_servers'', JList (map JStr STUN_SERVERS)),
              (''public_url'', jopt (SERVER_URL cfg))],
           s\<lparr>connected_peers :=
               AList.update peer_id
                 \<lparr>p_user_id = uid, p_ip = remote_addr, p_connected_at = now1,
                  p_status = ''online'', p_last_seen = now2, p_socket_id = None,
                  p_disconnected_at = None\<rparr>
                 (connected_peers s)\<rparr>))"

definition heartbeat :: "string \<Rightarrow> time \<Rightarrow> state \<Rightarrow> response \<times> state" where
  "heartbeat peer_id now s =
     (if \<not> has_key peer_id (connected_peers s) then
        (Json 404 [(''error'', JStr ''Peer not found'')], s)
      else
        (Json 200 [(''status'', JStr ''ok'')],
         s\<lparr>connected_peers :=
             AList.map_entry peer_id (\<lambda>p. p\<lparr>p_last_seen := now, p_status := ''online''\<rparr>)
               (connected_peers s)\<rparr>))"

definition get_peers :: "string option \<Rightarrow> state \<Rightarrow> response" where
  "get_peers user_id s =
     Json 200
       [(''peers'',
         JObj (map (\<lambda>(peer_id, peer_data). (peer_id, peer_json peer_data))
                (filter (\<lambda>(peer_id, peer_data).
                           p_status peer_data = ''online'' \<and>
                           (user_id = None \<or> user_id = Some [] \<or> Some (p_user_id peer_data) = user_id))
                   (connected_peers s))))]"

text \<open>
  The notification loops of \<open>request_file_transfer\<close>, \<open>approve_transfer\<close> and
  \<open>upload_file\<close> stop (\<open>break\<close>) at the first online peer of the user, whether or not
  it has a socket.
\<close>

definition first_online :: "string \<Rightarrow> (string \<times> peer) list \<Rightarrow> (string \<times> peer) option" where
  "first_online uid peers =
     find (\<lambda>(peer_id, peer_data). p_user_id peer_data = uid \<and> p_status peer_data = ''online'') peers"

definition notify_first :: "string \<Rightarrow> (string \<times> jv) list \<Rightarrow> string \<Rightarrow> state \<Rightarrow> state" where
  "notify_first ev data uid s =
     (case first_online uid (connected_peers s) of
        None \<Rightarrow> s
      | Some (peer_id, peer_data) \<Rightarrow>
          (case p_socket_id peer_data of
             None \<Rightarrow> s
           | Some sock \<Rightarrow> emit ev data (Some sock) s))"

text \<open>
  The loops of \<open>update_transfer_status\<close> and \<open>cancel_transfer\<close> have no \<open>break\<close>: every
  online peer of the sender or of the receiver that has a socket is notified.
\<close>

definition notify_parties :: "string \<Rightarrow> (string \<times> jv) list \<Rightarrow> string \<Rightarrow> string \<Rightarrow> state \<Rightarrow> state" where
  "notify_parties ev data sender_id receiver_id s =
     foldl (\<lambda>st (peer_id, peer_data).
              if p_user_id peer_data \<in> set [sender_id, receiver_id] \<and> p_status peer_data = ''online''
              then (case p_socket_id peer_data of
                      None \<Rightarrow> st
                    | Some sock \<Rightarrow> emit ev data (Some sock) st)
              else st)
       s (connected_peers s)"

definition request_file_transfer ::
  "string option \<Rightarrow> string option \<Rightarrow> string option \<Rightarrow> string \<Rightarrow> time \<Rightarrow> state \<Rightarrow> response \<times> state" where
  "request_file_transfer sender receiver fname request_id now s =
     (case (sender, receiver, fname) of
        (Some sender_id, Some receiver_id, Some filename) \<Rightarrow>
          (let s1 = s\<lparr>transfer_requests :=
                       AList.update request_id
                         \<lparr>q_sender_id = sender_id, q_receiver_id = receiver_id,
                          q_filename = filename, q_status = ''pending'', q_created_at = now\<rparr>
                         (transfer_requests s)\<rparr>
           in (Json 200
                 [(''status'', JStr ''pending''), (''request_id'', JStr request_id),
                  (''receiver_online'', JBool (first_online receiver_id (connected_peers s1) \<noteq> None))],
               notify_first ''transfer_request''
                 [(''request_id'', JStr request_id), (''sender_id'', JStr sender_id),
                  (''filename'', JStr filename)]
                 receiver_id s1))
      | _ \<Rightarrow> (Json 400 [(''error'', JStr ''Missing required parameters'')], s))"

text \<open>\<open>approve_transfer\<close>; \<open>transfer_id\<close> is the identifier drawn by \<open>uuid.uuid4()\<close>.\<close>

definition approve_transfer :: "string \<Rightarrow> string \<Rightarrow> time \<Rightarrow> state \<Rightarrow> response \<times> state" where
  "approve_transfer request_id transfer_id now s =
     (if \<not> has_key request_id (transfer_requests s) then
        (Json 404 [(''error'', JStr ''Transfer request not found'')], s)
      else
        (let s1 = s\<lparr>transfer_requests :=
                     AList.map_entry request_id (\<lambda>q. q\<lparr>q_status := ''approved''\<rparr>)
                       (transfer_requests s)\<rparr>;
             req = the (map_of (transfer_requests s1) request_id);
             s2 = s1\<lparr>active_transfers :=
                      AList.update transfer_id
                        \<lparr>t_request_id = request_id, t_status = ''ready'', t_progress = 0,
                         t_created_at = now, t_sender_id = q_sender_id req,
                         t_receiver_id = q_receiver_id req, t_filename = q_filename req,
                         t_transfer_mode = ''p2p'', t_file_path = None, t_completed_at = None\<rparr>
                        (active_transfers s1)\<rparr>;
             sender_id = q_sender_id req
         in (Json 200
               [(''status'', JStr ''approved''), (''transfer_id'', JStr transfer_id),
                (''sender_online'', JBool (first_online sender_id (connected_peers s2) \<noteq> None))],
             notify_first ''transfer_approved''
               [(''request_id'', JStr request_id), (''transfer_id'', JStr transfer_id)]
               sender_id s2)))"

text \<open>
  \<open>upload_file\<close>: \<open>file\<close> is the filename of the \<open>file\<close> part of the request (\<open>None\<close>:
  no such part); \<open>save_error\<close> is \<open>None\<close> when \<open>os.makedirs\<close> and \<open>file.save\<close> succeed and
  the text of the exception otherwise, which the handler's \<open>except\<close> answers with 500
  after the first two fields were already written.
\<close>

definition upload_file ::
  "string \<Rightarrow> string option \<Rightarrow> (string \<Rightarrow> string) \<Rightarrow> string option \<Rightarrow> time \<Rightarrow> state
   \<Rightarrow> response \<times> state" where
  "upload_file transfer_id file secure_filename save_error now s =
     (if \<not> has_key transfer_id (active_transfers s) then
        (Json 404 [(''error'', JStr ''Transfer not found or not approved'')], s)
      else
        (case file of
           None \<Rightarrow> (Json 400 [(''error'', JStr ''No file part'')], s)
         | Some file_filename \<Rightarrow>
             if file_filename = [] then (Json 400 [(''error'', JStr ''No selected file'')], s)
             else
               (let s1 = s\<lparr>active_transfers :=
                            AList.map_entry transfer_id
                              (\<lambda>t. t\<lparr>t_status := ''transferring'', t_transfer_mode := ''server_relay''\<rparr>)
                              (active_transfers s)\<rparr>;
                    filename = secure_filename file_filename;
                    transfer_dir = os_path_join UPLOAD_FOLDER transfer_id;
                    file_path = os_path_join transfer_dir filename
                in case save_error of
                     Some msg \<Rightarrow> (Json 500 [(''error'', JStr msg)], s1)
                   | None \<Rightarrow>
                       (let s2 = s1\<lparr>files := insert file_path (files s1)\<rparr>;
                            s3 = s2\<lparr>active_transfers :=
                                     AList.map_entry transfer_id
                                       (\<lambda>t. t\<lparr>t_status := ''completed'', t_progress := 100,
                                              t_file_path := Some file_path,
                                              t_completed_at := Some now\<rparr>)
                                       (active_transfers s2)\<rparr>;
                            receiver_id = t_receiver_id (the (map_of (active_transfers s3) transfer_id))
                        in (Json 200
                              [(''status'', JStr ''completed''), (''transfer_id'', JStr transfer_id),
                               (''filename'', JStr filename)],
                            notify_first ''transfer_completed''
                              [(''transfer_id'', JStr transfer_id), (''filename'', JStr filename),
                               (''transfer_mode'', JStr ''server_relay'')]
                              receiver_id s3)))))"

text \<open>
  \<open>download_file\<close>: \<open>transfer['file_path']\<close> raises KeyError when the key is absent (a
  transfer completed peer to peer); the handler answers 500 with the text of the error.
\<close>

definition download_file :: "string \<Rightarrow> state \<Rightarrow> response" where
  "download_file transfer_id s =
     (case map_of (active_transfers s) transfer_id of
        None \<Rightarrow> Json 404 [(''error'', JStr ''Transfer not found'')]
      | Some transfer \<Rightarrow>
          if t_status transfer \<noteq> ''completed'' then
            Json 400 [(''error'', JStr ''File not ready for download'')]
          else
            (case t_file_path transfer of
               None \<Rightarrow> Json 500 [(''error'', JStr (py_repr ''file_path''))]
             | Some file_path \<Rightarrow>
                 if file_path \<notin> files s then Json 404 [(''error'', JStr ''File not found'')]
                 else SendFile file_path))"

definition get_transfer_status :: "string \<Rightarrow> state \<Rightarrow> response" where
  "get_transfer_status transfer_id s =
     (case map_of (active_transfers s) transfer_id of
        None \<Rightarrow> Json 404 [(''error'', JStr ''Transfer not found'')]
      | Some transfer \<Rightarrow> Json 200 (transfer_json transfer))"

text \<open>
  \<open>update_transfer_status\<close>: \<open>status\<close> and \<open>progress\<close> are \<open>None\<close> when the body lacks the
  key. The body is checked before the transfer is looked up.
\<close>

definition update_transfer_status ::
  "string \<Rightarrow> string option \<Rightarrow> int option \<Rightarrow> time \<Rightarrow> state \<Rightarrow> response \<times> state" where
  "update_transfer_status transfer_id status progress now s =
     (case (status, progress) of
        (Some data_status, Some data_progress) \<Rightarrow>
          if \<not> has_key transfer_id (active_transfers s) then
            (Json 404 [(''error'', JStr ''Transfer not found'')], s)
          else
            (let s1 = s\<lparr>active_transfers :=
                         AList.map_entry transfer_id
                           (\<lambda>t. t\<lparr>t_status := data_status, t_progress := data_progress\<rparr>)
                           (active_transfers s)\<rparr>
             in if data_status = ''completed'' then
                  (let s2 = s1\<lparr>active_transfers :=
                                AList.map_entry transfer_id (\<lambda>t. t\<lparr>t_completed_at := Some now\<rparr>)
                                  (active_transfers s1)\<rparr>;
                       transfer = the (map_of (active_transfers s2) transfer_id)
                   in (Json 200 [(''status'', JStr ''updated'')],
                       notify_parties ''transfer_completed''
                         [(''transfer_id'', JStr transfer_id), (''transfer_mode'', JStr ''p2p'')]
                         (t_sender_id transfer) (t_receiver_id transfer) s2))
                else (Json 200 [(''status'', JStr ''updated'')], s1))
      | _ \<Rightarrow> (Json 400 [(''error'', JStr ''Missing required parameters'')], s))"

text \<open>
  \<open>cancel_transfer\<close>: \<open>os.remove\<close> of an existing regular file takes its path out of
  \<open>files\<close>.
\<close>

definition cancel_transfer :: "string \<Rightarrow> state \<Rightarrow> response \<times> state" where
  "cancel_transfer transfer_id s =
     (if \<not> has_key transfer_id (active_transfers s) then
        (Json 404 [(''error'', JStr ''Transfer not found'')], s)
      else
        (let s1 = s\<lparr>active_transfers :=
                     AList.map_entry transfer_id (\<lambda>t. t\<lparr>t_status := ''cancelled''\<rparr>)
                       (active_transfers s)\<rparr>;
             transfer = the (map_of (active_transfers s1) transfer_id);
             s2 = (if t_transfer_mode transfer = ''server_relay'' then
                     (case t_file_path transfer of
                        None \<Rightarrow> s1
                      | Some file_path \<Rightarrow>
                          if file_path \<in> files s1 then s1\<lparr>files := files s1 - {file_path}\<rparr>
                          else s1)
                   else s1)
         in (Json 200 [(''status'', JStr ''cancelled''), (''transfer_id'', JStr transfer_id)],
             notify_parties ''transfer_cancelled'' [(''transfer_id'', JStr transfer_id)]
               (t_sender_id transfer) (t_receiver_id transfer) s2)))"

definition disconnect_peer :: "string \<Rightarrow> time \<Rightarrow> state \<Rightarrow> response \<times> state" where
  "disconnect_peer peer_id now s =
     (if \<not> has_key peer_id (connected_peers s) then
        (Json 404 [(''error'', JStr ''Peer not found'')], s)
      else
        (Json 200 [(''status'', JStr ''disconnected''), (''peer_id'', JStr peer_id)],
         s\<lparr>connected_peers :=
             AList.map_entry peer_id
               (\<lambda>p. p\<lparr>p_status := ''offline'', p_disconnected_at := Some now\<rparr>)
               (connected_peers s)\<rparr>))"

section \<open>The cleanup task\<close>

text \<open>
  One iteration of the \<open>while True\<close> loop of \<open>cleanup_inactive_peers\<close>, at clock reading
  \<open>now\<close>. Instants are whole microseconds, as a \<open>datetime\<close> is, so
  \<open>(now - last_seen).total_seconds() > 60\<close> is \<open>now - last_seen > 60000000\<close>.
\<close>

fun cleanup_loop :: "time \<Rightarrow> (string \<times> peer) list \<Rightarrow> state \<Rightarrow> state" where
  "cleanup_loop now [] s = s"
| "cleanup_loop now ((peer_id, peer_data) # rest) s =
     cleanup_loop now rest
       (if p_status peer_data = ''online'' \<and> now - p_last_seen peer_data > 60000000 then
          s\<lparr>connected_peers :=
              AList.map_entry peer_id (\<lambda>p. p\<lparr>p_status := ''offline''\<rparr>) (connected_peers s)\<rparr>
        else s)"

definition cleanup_inactive_peers :: "time \<Rightarrow> state \<Rightarrow> state" where
  "cleanup_inactive_peers now s = cleanup_loop now (connected_peers s) s"

section \<open>The server as a transition system\<close>

text \<open>
  Every entry point of the server, with what it reads from the request and from its
  environment. \<open>step\<close> is the effect of one call on the state; \<open>run\<close> performs calls one
  after another.
\<close>

datatype call =
    SioConnect string
  | SioDisconnect string "string \<Rightarrow> time"
  | RegisterSocket string "string option" time
  | PeerSignal "string option" "string option" jv string time
  | RelayChunk "string option" jv "int option" "int option"
  | GetStatus server_info
  | ConnectPeer server_info "string option" string string time time
  | Heartbeat string time
  | GetPeers "string option"
  | RequestFileTransfer "string option" "string option" "string option" string time
  | ApproveTransfer string string time
  | UploadFile string "string option" "string \<Rightarrow> string" "string option" time
  | DownloadFile string
  | GetTransferStatus string
  | UpdateTransferStatus string "string option" "int option" time
  | CancelTransfer string
  | DisconnectPeer string time
  | CleanupPass time

fun step :: "call \<Rightarrow> state \<Rightarrow> state" where
  "step (SioConnect sid) s = connect sid s"
| "step (SioDisconnect sid now_at) s = disconnect sid now_at s"
| "step (RegisterSocket sid peer_id now) s = snd (register_socket sid peer_id now s)"
| "step (PeerSignal target sender signal_data session_id now) s =
     snd (peer_signal target sender signal_data session_id now s)"
| "step (RelayChunk session_id chunk_data chunk_index total_chunks) s =
     snd (relay_chunk session_id chunk_data chunk_index total_chunks s)"
| "step (GetStatus cfg) s = s"
| "step (ConnectPeer cfg user_id remote_addr peer_id now1 now2) s =
     snd (connect_peer cfg user_id remote_addr peer_id now1 now2 s)"
| "step (Heartbeat peer_id now) s = snd (heartbeat peer_id now s)"
| "step (GetPeers user_id) s = s"
| "step (RequestFileTransfer sender receiver fname request_id now) s =
     snd (request_file_transfer sender receiver fname request_id now s)"
| "step (ApproveTransfer request_id transfer_id now) s =
     snd (approve_transfer request_id transfer_id now s)"
| "step (UploadFile transfer_id file secure_filename save_error now) s =
     snd (upload_file transfer_id file secure_filename save_error now s)"
| "step (DownloadFile transfer_id) s = s"
| "step (GetTransferStatus transfer_id) s = s"
| "step (UpdateTransferStatus transfer_id status progress now) s =
     snd (update_transfer_status transfer_id status progress now s)"
| "step (CancelTransfer transfer_id) s = snd (cancel_transfer transfer_id s)"
| "step (DisconnectPeer peer_id now) s = snd (disconnect_peer peer_id now s)"
| "step (CleanupPass now) s = cleanup_inactive_peers now s"

fun run :: "call list \<Rightarrow> state \<Rightarrow> state" where
  "run [] s = s"
| "run (c # cs) s = run cs (step c s)"

text \<open>
  Approving one request several times in a row, each call with its own drawn
  identifier and clock reading; the responses are collected in order.
\<close>

fun approve_all :: "string \<Rightarrow> (string \<times> time) list \<Rightarrow> state \<Rightarrow> response list \<times> state" where
  "approve_all request_id [] s = ([], s)"
| "approve_all request_id ((transfer_id, now) # rest) s =
     (let (r, s1) = approve_transfer request_id transfer_id now s;
          (rs, s2) = approve_all request_id rest s1
      in (r # rs, s2))"

section \<open>A concrete server state\<close>

text \<open>
  Three peers (one online with a socket, one offline that still holds a socket, one
  online without a socket), one request, one completed relayed transfer with its staged
  file, and two relay sessions.
\<close>

definition peer_a :: peer where
  "peer_a = \<lparr>p_user_id = ''u1'', p_ip = ''10.0.0.1'', p_connected_at = 0, p_status = ''online'',
     p_last_seen = 0, p_socket_id = Some ''sockA'', p_disconnected_at = None\<rparr>"

definition peer_b :: peer where
  "peer_b = \<lparr>p_user_id = ''u2'', p_ip = ''10.0.0.2'', p_connected_at = 1, p_status = ''offline'',
     p_last_seen = 2, p_socket_id = Some ''sockB'', p_disconnected_at = Some 5\<rparr>"

definition peer_c :: peer where
  "peer_c = \<lparr>p_user_id = ''u3'', p_ip = ''10.0.0.3'', p_connected_at = 3, p_status = ''online'',
     p_last_seen = 50000000, p_socket_id = None, p_disconnected_at = None\<rparr>"

definition request_1 :: transfer_request where
  "request_1 = \<lparr>q_sender_id = ''u1'', q_receiver_id = ''u2'', q_filename = ''f.txt'',
     q_status = ''pending'', q_created_at = 4\<rparr>"

definition transfer_1 :: active_transfer where
  "transfer_1 = \<lparr>t_request_id = ''r1'', t_status = ''completed'', t_progress = 100,
     t_created_at = 6, t_sender_id = ''u1'', t_receiver_id = ''u2'', t_filename = ''f.txt'',
     t_transfer_mode = ''server_relay'', t_file_path = Some ''transfers/t1/f.txt'',
     t_completed_at = Some 9\<rparr>"

definition session_1 :: relay_session where
  "session_1 = \<lparr>r_sender_id = Some ''pA'', r_receiver_id = Some ''pC'', r_status = ''initiated'',
     r_created_at = 7\<rparr>"

definition session_2 :: relay_session where
  "session_2 = \<lparr>r_sender_id = Some ''pC'', r_receiver_id = Some ''pA'', r_status = ''initiated'',
     r_created_at = 8\<rparr>"

definition example_state :: state where
  "example_state =
     \<lparr>connected_peers = [(''pA'', peer_a), (''pB'', peer_b), (''pC'', peer_c)],
      transfer_requests = [(''r1'', request_1)],
      active_transfers = [(''t1'', transfer_1)],
      relay_sessions = [(''s1'', session_1), (''s2'', session_2)],
      files = {''transfers/t1/f.txt''},
      outbox = []\<rparr>"



section \<open>Dictionaries and notifications\<close>

text \<open>
  Writing a field of an existing entry keeps the key set; a notification touches nothing
  but \<open>outbox\<close>.
\<close>

lemma has_key_keys: "has_key k d \<longleftrightarrow> k \<in> keys d"
  by (simp add: has_key_def keys_def map_of_eq_None_iff)

lemma keys_update: "keys (AList.update k v d) = insert k (keys d)"
  by (simp add: keys_def dom_update)

lemma keys_map_entry: "keys (AList.map_entry k f d) = keys d"
  by (simp add: keys_def dom_map_entry)

lemma map_of_map_entry_same:
  "map_of d k = Some v \<Longrightarrow> map_of (AList.map_entry k f d) k = Some (f v)"
  by (simp add: map_of_map_entry)

lemma map_of_map_entry_other:
  "k' \<noteq> k \<Longrightarrow> map_of (AList.map_entry k f d) k' = map_of d k'"
  by (simp add: map_of_map_entry)

lemma map_entry_absent: "map_of d k = None \<Longrightarrow> AList.map_entry k f d = d"
  by (induction d) (auto split: if_splits)

lemma notify_fold_outbox:
  "\<exists>evs. foldl (\<lambda>st (peer_id, peer_data).
              if P peer_data
              then (case p_socket_id peer_data of
                      None \<Rightarrow> st
                    | Some sock \<Rightarrow> emit ev data (Some sock) st)
              else st) st0 ps = st0\<lparr>outbox := outbox st0 @ evs\<rparr>"
proof (induction ps arbitrary: st0)
  case Nil
  have "st0 = st0\<lparr>outbox := outbox st0 @ []\<rparr>" by simp
  then show ?case by (metis foldl_Nil)
next
  case (Cons a ps)
  obtain k pd where a: "a = (k, pd)" by (cases a)
  show ?case
  proof (cases "P pd \<and> p_socket_id pd \<noteq> None")
    case True
    then obtain sock where sk: "p_socket_id pd = Some sock" by auto
    from Cons.IH[of "emit ev data (Some sock) st0"] obtain evs where
      "foldl (\<lambda>st (peer_id, peer_data).
              if P peer_data
              then (case p_socket_id peer_data of
                      None \<Rightarrow> st
                    | Some sock \<Rightarrow> emit ev data (Some sock) st)
              else st) (emit ev data (Some sock) st0) ps
        = (emit ev data (Some sock) st0)\<lparr>outbox := outbox (emit ev data (Some sock) st0) @ evs\<rparr>"
      by blast
    then show ?thesis using True sk a
      by (intro exI[of _ "Emit ev data (Some sock) # evs"]) (simp add: emit_def)
  next
    case False
    from Cons.IH[of st0] obtain evs where
      "foldl (\<lambda>st (peer_id, peer_data).
              if P peer_data
              then (case p_socket_id peer_data of
                      None \<Rightarrow> st
                    | Some sock \<Rightarrow> emit ev data (Some sock) st)
              else st) st0 ps = st0\<lparr>outbox := outbox st0 @ evs\<rparr>" by blast
    then show ?thesis using False a
      by (intro exI[of _ evs]) (auto split: option.splits)
  qed
qed

lemma notify_parties_outbox:
  "\<exists>evs. notify_parties ev data a b s = s\<lparr>outbox := outbox s @ evs\<rparr>"
  unfolding notify_parties_def by (rule notify_fold_outbox)

lemma notify_parties_fields [simp]:
  "connected_peers (notify_parties ev data a b s) = connected_peers s"
  "transfer_requests (notify_parties ev data a b s) = transfer_requests s"
  "active_transfers (notify_parties ev data a b s) = active_transfers s"
  "relay_sessions (notify_parties ev data a b s) = relay_sessions s"
  "files (notify_parties ev data a b s) = files s"
  using notify_parties_outbox[of ev data a b s] by auto

lemma notify_first_fields [simp]:
  "connected_peers (notify_first ev data u s) = connected_peers s"
  "transfer_requests (notify_first ev data u s) = transfer_requests s"
  "active_transfers (notify_first ev data u s) = active_transfers s"
  "relay_sessions (notify_first ev data u s) = relay_sessions s"
  "files (notify_first ev data u s) = files s"
  by (auto simp: notify_first_def emit_def split: option.splits)

lemma emit_fields [simp]:
  "connected_peers (emit ev data r s) = connected_peers s"
  "transfer_requests (emit ev data r s) = transfer_requests s"
  "active_transfers (emit ev data r s) = active_transfers s"
  "relay_sessions (emit ev data r s) = relay_sessions s"
  "files (emit ev data r s) = files s"
  by (simp_all add: emit_def)

lemmas example_defs = example_state_def peer_a_def peer_b_def peer_c_def request_1_def
  transfer_1_def session_1_def session_2_def

section \<open>Explicit disconnect\<close>

text \<open>
  \<open>disconnect_peer\<close> on a peer that holds a socket: the call succeeds and the peer still
  holds the socket afterwards, so "disconnect clears the peer's channel_ref" (C4) fails
  at \<open>pA\<close> of the example state.
\<close>

theorem disconnect_peer_socket_counterexample:
  "fst (disconnect_peer ''pA'' 99 example_state)
     = Json 200 [(''status'', JStr ''disconnected''), (''peer_id'', JStr ''pA'')]
   \<and> map_option p_socket_id
       (map_of (connected_peers (snd (disconnect_peer ''pA'' 99 example_state))) ''pA'')
     = Some (Some ''sockA'')"
  by (simp add: disconnect_peer_def has_key_def example_defs)

text \<open>
  C4, as the code has it: for a known \<open>peer_id\<close>, \<open>disconnect_peer\<close> answers 200, sets
  that peer's status to \<open>offline\<close> and its \<open>disconnected_at\<close> to the current time, and
  leaves every other field of the peer (its \<open>socket_id\<close> among them), every other peer,
  the key set and the rest of the state as they were; for an unknown \<open>peer_id\<close> it answers
  404 and the state is unchanged.
\<close>

theorem disconnect_peer_effect:
  "(map_of (connected_peers s) peer_id = Some p \<longrightarrow>
      (\<exists>ps. disconnect_peer peer_id now s
              = (Json 200 [(''status'', JStr ''disconnected''), (''peer_id'', JStr peer_id)],
                 s\<lparr>connected_peers := ps\<rparr>)
          \<and> map_of ps peer_id = Some (p\<lparr>p_status := ''offline'', p_disconnected_at := Some now\<rparr>)
          \<and> (\<forall>k. k \<noteq> peer_id \<longrightarrow> map_of ps k = map_of (connected_peers s) k)
          \<and> keys ps = keys (connected_peers s)))
   \<and> (map_of (connected_peers s) peer_id = None \<longrightarrow>
        disconnect_peer peer_id now s = (Json 404 [(''error'', JStr ''Peer not found'')], s))"
proof (intro conjI impI)
  assume p: "map_of (connected_peers s) peer_id = Some p"
  let ?ps = "AList.map_entry peer_id
               (\<lambda>p. p\<lparr>p_status := ''offline'', p_disconnected_at := Some now\<rparr>) (connected_peers s)"
  have "disconnect_peer peer_id now s
          = (Json 200 [(''status'', JStr ''disconnected''), (''peer_id'', JStr peer_id)],
             s\<lparr>connected_peers := ?ps\<rparr>)"
    using p by (simp add: disconnect_peer_def has_key_def)
  moreover have "map_of ?ps peer_id
          = Some (p\<lparr>p_status := ''offline'', p_disconnected_at := Some now\<rparr>)"
    using p by (simp add: map_of_map_entry)
  moreover have "\<forall>k. k \<noteq> peer_id \<longrightarrow> map_of ?ps k = map_of (connected_peers s) k"
    by (simp add: map_of_map_entry)
  moreover have "keys ?ps = keys (connected_peers s)"
    by (rule keys_map_entry)
  ultimately show "\<exists>ps. disconnect_peer peer_id now s
              = (Json 200 [(''status'', JStr ''disconnected''), (''peer_id'', JStr peer_id)],
                 s\<lparr>connected_peers := ps\<rparr>)
          \<and> map_of ps peer_id = Some (p\<lparr>p_status := ''offline'', p_disconnected_at := Some now\<rparr>)
          \<and> (\<forall>k. k \<noteq> peer_id \<longrightarrow> map_of ps k = map_of (connected_peers s) k)
          \<and> keys ps = keys (connected_peers s)"
    by blast
next
  assume "map_of (connected_peers s) peer_id = None"
  then show "disconnect_peer peer_id now s = (Json 404 [(''error'', JStr ''Peer not found'')], s)"
    by (simp add: disconnect_peer_def has_key_def)
qed

theorem disconnect_peer_effect_witness:
  "map_of (connected_peers example_state) ''pA'' = Some peer_a
   \<and> map_of (connected_peers (snd (disconnect_peer ''pA'' 99 example_state))) ''pA''
       = Some (peer_a\<lparr>p_status := ''offline'', p_disconnected_at := Some 99\<rparr>)
   \<and> map_of (connected_peers example_state) ''zz'' = None
   \<and> disconnect_peer ''zz'' 99 example_state
       = (Json 404 [(''error'', JStr ''Peer not found'')], example_state)"
proof -
  have a: "map_of (connected_peers example_state) ''pA'' = Some peer_a"
    by (simp add: example_state_def)
  have z: "map_of (connected_peers example_state) ''zz'' = None"
    by (simp add: example_state_def)
  from disconnect_peer_effect[of example_state "''pA''" peer_a 99] a
  have 1: "map_of (connected_peers (snd (disconnect_peer ''pA'' 99 example_state))) ''pA''
       = Some (peer_a\<lparr>p_status := ''offline'', p_disconnected_at := Some 99\<rparr>)"
    by auto
  from disconnect_peer_effect[of example_state "''zz''" peer_a 99] z
  have 2: "disconnect_peer ''zz'' 99 example_state
       = (Json 404 [(''error'', JStr ''Peer not found'')], example_state)"
    by blast
  show ?thesis using a z 1 2 by blast
qed

section \<open>Relay chunks\<close>

text \<open>
  C9: for a known relay session whose receiver has no attached socket (the receiver is
  no key of \<open>connected_peers\<close>, or its entry has no \<open>socket_id\<close>), \<open>relay_chunk\<close> answers
  \<open>queued\<close> and returns the state as it was, whatever index and total it is given, the
  final chunk \<open>index = total - 1\<close> included: the session's status and every field of
  every relay session stay unchanged.
\<close>

theorem relay_chunk_queued_frame:
  "map_of (relay_sessions s) sess = Some rs \<Longrightarrow>
   socket_of (r_receiver_id rs) (connected_peers s) = None \<Longrightarrow>
   relay_chunk (Some sess) chunk_data chunk_index total_chunks s
     = ([(''status'', JStr ''queued''), (''message'', JStr ''Receiver offline, chunk queued'')], s)"
  by (simp add: relay_chunk_def)

theorem relay_chunk_queued_frame_witness:
  "map_of (relay_sessions example_state) ''s1'' = Some session_1
   \<and> socket_of (r_receiver_id session_1) (connected_peers example_state) = None
   \<and> relay_chunk (Some ''s1'') (JStr ''data'') (Some 4) (Some 5) example_state
     = ([(''status'', JStr ''queued''), (''message'', JStr ''Receiver offline, chunk queued'')],
        example_state)"
proof -
  have a: "map_of (relay_sessions example_state) ''s1'' = Some session_1"
    by (simp add: example_state_def)
  have b: "socket_of (r_receiver_id session_1) (connected_peers example_state) = None"
    by (simp add: socket_of_def example_defs)
  show ?thesis using a b relay_chunk_queued_frame[OF a b, of "JStr ''data''" "Some 4" "Some 5"] by simp
qed

section \<open>Status updates and cancellation\<close>

lemma cancel_transfer_response:
  "map_of (active_transfers s) tid = Some t \<Longrightarrow>
   fst (cancel_transfer tid s)
     = Json 200 [(''status'', JStr ''cancelled''), (''transfer_id'', JStr tid)]"
  by (simp add: cancel_transfer_def has_key_def Let_def)

lemma cancel_transfer_transfers:
  "map_of (active_transfers s) tid = Some t \<Longrightarrow>
   active_transfers (snd (cancel_transfer tid s))
     = AList.map_entry tid (\<lambda>t. t\<lparr>t_status := ''cancelled''\<rparr>) (active_transfers s)"
  by (simp add: cancel_transfer_def has_key_def Let_def split: option.splits)


lemma update_transfer_status_response:
  "map_of (active_transfers s) tid = Some t \<Longrightarrow>
   fst (update_transfer_status tid (Some st) (Some pr) now s)
     = Json 200 [(''status'', JStr ''updated'')]"
  by (simp add: update_transfer_status_def has_key_def Let_def)

lemma update_transfer_status_transfers:
  "map_of (active_transfers s) tid = Some t \<Longrightarrow>
   map_of (active_transfers (snd (update_transfer_status tid (Some st) (Some pr) now s))) k
     = (if k = tid
        then Some (t\<lparr>t_status := st, t_progress := pr,
                     t_completed_at := (if st = ''completed'' then Some now else t_completed_at t)\<rparr>)
        else map_of (active_transfers s) k)"
  by (simp add: update_transfer_status_def has_key_def Let_def map_of_map_entry)

text \<open>
  The transfer \<open>t1\<close> of the example state is \<open>completed\<close>. A status update on it is
  answered 200 and rewrites its status and progress; a cancellation is answered 200 and
  rewrites its status. So "a call on a completed or cancelled transfer is rejected and
  leaves every field unchanged" (C1) fails there.
\<close>

theorem terminal_transfer_mutated_counterexample:
  "fst (update_transfer_status ''t1'' (Some ''transferring'') (Some 50) 11 example_state)
     = Json 200 [(''status'', JStr ''updated'')]
   \<and> map_of (active_transfers
         (snd (update_transfer_status ''t1'' (Some ''transferring'') (Some 50) 11 example_state))) ''t1''
     = Some (transfer_1\<lparr>t_status := ''transferring'', t_progress := 50\<rparr>)
   \<and> t_status transfer_1 = ''completed''
   \<and> map_of (active_transfers example_state) ''t1'' = Some transfer_1
   \<and> fst (cancel_transfer ''t1'' example_state)
     = Json 200 [(''status'', JStr ''cancelled''), (''transfer_id'', JStr ''t1'')]
   \<and> map_of (active_transfers (snd (cancel_transfer ''t1'' example_state))) ''t1''
     = Some (transfer_1\<lparr>t_status := ''cancelled''\<rparr>)"
proof -
  have a: "map_of (active_transfers example_state) ''t1'' = Some transfer_1"
    by (simp add: example_state_def)
  show ?thesis
    using a update_transfer_status_response[OF a] update_transfer_status_transfers[OF a]
      cancel_transfer_response[OF a] cancel_transfer_transfers[OF a]
    by (simp add: map_of_map_entry transfer_1_def)
qed

text \<open>
  C1, as the code has it: for every known transfer, whatever its status (\<open>completed\<close>
  and \<open>cancelled\<close> included), \<open>update_transfer_status\<close> with a status and a progress
  answers 200 and overwrites the transfer's status and progress with the submitted
  values, stamping \<open>completed_at\<close> when the submitted status is \<open>completed\<close>, and
  \<open>cancel_transfer\<close> answers 200 and sets the status to \<open>cancelled\<close>; every other field
  of the transfer (\<open>file_path\<close>, \<open>transfer_mode\<close>, ...) keeps its value. The code has no
  InvalidTransition answer.
\<close>

theorem terminal_transfer_still_mutable:
  assumes "map_of (active_transfers s) tid = Some t"
  shows "fst (update_transfer_status tid (Some st) (Some pr) now s)
           = Json 200 [(''status'', JStr ''updated'')]
       \<and> map_of (active_transfers (snd (update_transfer_status tid (Some st) (Some pr) now s))) tid
           = Some (t\<lparr>t_status := st, t_progress := pr,
                     t_completed_at := (if st = ''completed'' then Some now else t_completed_at t)\<rparr>)
       \<and> fst (cancel_transfer tid s)
           = Json 200 [(''status'', JStr ''cancelled''), (''transfer_id'', JStr tid)]
       \<and> map_of (active_transfers (snd (cancel_transfer tid s))) tid
           = Some (t\<lparr>t_status := ''cancelled''\<rparr>)"
  using assms update_transfer_status_response[OF assms] update_transfer_status_transfers[OF assms]
      cancel_transfer_response[OF assms] cancel_transfer_transfers[OF assms]
  by (simp add: map_of_map_entry)

theorem terminal_transfer_still_mutable_witness:
  "map_of (active_transfers example_state) ''t1'' = Some transfer_1
   \<and> fst (update_transfer_status ''t1'' (Some ''ready'') (Some 0) 12 example_state)
       = Json 200 [(''status'', JStr ''updated'')]
   \<and> map_of (active_transfers
         (snd (update_transfer_status ''t1'' (Some ''ready'') (Some 0) 12 example_state))) ''t1''
       = Some (transfer_1\<lparr>t_status := ''ready'', t_progress := 0\<rparr>)
   \<and> map_of (active_transfers (snd (cancel_transfer ''t1'' example_state))) ''t1''
       = Some (transfer_1\<lparr>t_status := ''cancelled''\<rparr>)"
proof -
  have a: "map_of (active_transfers example_state) ''t1'' = Some transfer_1"
    by (simp add: example_state_def)
  show ?thesis
    using a terminal_transfer_still_mutable[OF a, of "''ready''" 0 12]
    by (simp add: transfer_1_def)
qed





section \<open>Approval\<close>

lemma first_online_iff:
  "first_online uid peers \<noteq> None \<longleftrightarrow>
     (\<exists>(peer_id, peer_data) \<in> set peers. p_user_id peer_data = uid \<and> p_status peer_data = ''online'')"
  by (auto simp add: first_online_def find_None_iff)

lemma approve_transfer_unknown:
  "map_of (transfer_requests s) rid = None \<Longrightarrow>
   approve_transfer rid tid now s = (Json 404 [(''error'', JStr ''Transfer request not found'')], s)"
  by (simp add: approve_transfer_def has_key_def)

lemma approve_transfer_response:
  "map_of (transfer_requests s) rid = Some q \<Longrightarrow>
   fst (approve_transfer rid tid now s)
     = Json 200 [(''status'', JStr ''approved''), (''transfer_id'', JStr tid),
         (''sender_online'', JBool (first_online (q_sender_id q) (connected_peers s) \<noteq> None))]"
  by (simp add: approve_transfer_def has_key_def Let_def map_of_map_entry)

lemma approve_transfer_requests:
  "map_of (transfer_requests s) rid = Some q \<Longrightarrow>
   transfer_requests (snd (approve_transfer rid tid now s))
     = AList.map_entry rid (\<lambda>q. q\<lparr>q_status := ''approved''\<rparr>) (transfer_requests s)"
  by (simp add: approve_transfer_def has_key_def Let_def)

lemma approve_transfer_transfers:
  "map_of (transfer_requests s) rid = Some q \<Longrightarrow>
   active_transfers (snd (approve_transfer rid tid now s))
     = AList.update tid
         \<lparr>t_request_id = rid, t_status = ''ready'', t_progress = 0, t_created_at = now,
          t_sender_id = q_sender_id q, t_receiver_id = q_receiver_id q,
          t_filename = q_filename q, t_transfer_mode = ''p2p'', t_file_path = None,
          t_completed_at = None\<rparr>
         (active_transfers s)"
  by (simp add: approve_transfer_def has_key_def Let_def map_of_map_entry)

text \<open>
  C6: for an unknown \<open>request_id\<close>, \<open>approve_transfer\<close> answers 404 and changes nothing
  (no active transfer is created). For a known one it answers 200 with the drawn
  transfer id and the flag \<open>sender_online\<close>, which tells whether some peer of the
  sender's user id has status \<open>online\<close>; the request is marked \<open>approved\<close>, and under the
  drawn id there is an active transfer in status \<open>ready\<close> with progress 0 that carries
  the request's sender, receiver and filename. No other active transfer changes.
\<close>

theorem approve_transfer_effect:
  "(map_of (transfer_requests s) rid = None \<longrightarrow>
      approve_transfer rid tid now s
        = (Json 404 [(''error'', JStr ''Transfer request not found'')], s))
   \<and> (map_of (transfer_requests s) rid = Some q \<longrightarrow>
        fst (approve_transfer rid tid now s)
          = Json 200 [(''status'', JStr ''approved''), (''transfer_id'', JStr tid),
              (''sender_online'',
               JBool (\<exists>(peer_id, peer_data) \<in> set (connected_peers s).
                        p_user_id peer_data = q_sender_id q \<and> p_status peer_data = ''online''))]
        \<and> map_of (transfer_requests (snd (approve_transfer rid tid now s))) rid
            = Some (q\<lparr>q_status := ''approved''\<rparr>)
        \<and> map_of (active_transfers (snd (approve_transfer rid tid now s))) tid
            = Some \<lparr>t_request_id = rid, t_status = ''ready'', t_progress = 0, t_created_at = now,
                t_sender_id = q_sender_id q, t_receiver_id = q_receiver_id q,
                t_filename = q_filename q, t_transfer_mode = ''p2p'', t_file_path = None,
                t_completed_at = None\<rparr>
        \<and> (\<forall>k. k \<noteq> tid \<longrightarrow>
              map_of (active_transfers (snd (approve_transfer rid tid now s))) k
                = map_of (active_transfers s) k))"
proof (intro conjI impI)
  assume "map_of (transfer_requests s) rid = None"
  then show "approve_transfer rid tid now s
        = (Json 404 [(''error'', JStr ''Transfer request not found'')], s)"
    by (rule approve_transfer_unknown)
next
  assume q: "map_of (transfer_requests s) rid = Some q"
  show "fst (approve_transfer rid tid now s)
          = Json 200 [(''status'', JStr ''approved''), (''transfer_id'', JStr tid),
              (''sender_online'',
               JBool (\<exists>(peer_id, peer_data) \<in> set (connected_peers s).
                        p_user_id peer_data = q_sender_id q \<and> p_status peer_data = ''online''))]"
    using approve_transfer_response[OF q, of tid now] first_online_iff[of "q_sender_id q" "connected_peers s"]
    by simp
  show "map_of (transfer_requests (snd (approve_transfer rid tid now s))) rid
            = Some (q\<lparr>q_status := ''approved''\<rparr>)"
    using q by (simp add: approve_transfer_requests[OF q] map_of_map_entry)
  show "map_of (active_transfers (snd (approve_transfer rid tid now s))) tid
            = Some \<lparr>t_request_id = rid, t_status = ''ready'', t_progress = 0, t_created_at = now,
                t_sender_id = q_sender_id q, t_receiver_id = q_receiver_id q,
                t_filename = q_filename q, t_transfer_mode = ''p2p'', t_file_path = None,
                t_completed_at = None\<rparr>"
    by (simp add: approve_transfer_transfers[OF q] update_conv')
  show "\<forall>k. k \<noteq> tid \<longrightarrow>
              map_of (active_transfers (snd (approve_transfer rid tid now s))) k
                = map_of (active_transfers s) k"
    by (simp add: approve_transfer_transfers[OF q] update_conv')
qed

theorem approve_transfer_effect_witness:
  "map_of (transfer_requests example_state) ''zz'' = None
   \<and> approve_transfer ''zz'' ''t2'' 20 example_state
       = (Json 404 [(''error'', JStr ''Transfer request not found'')], example_state)
   \<and> map_of (transfer_requests example_state) ''r1'' = Some request_1
   \<and> fst (approve_transfer ''r1'' ''t2'' 20 example_state)
       = Json 200 [(''status'', JStr ''approved''), (''transfer_id'', JStr ''t2''),
           (''sender_online'', JBool True)]
   \<and> map_of (active_transfers (snd (approve_transfer ''r1'' ''t2'' 20 example_state))) ''t2''
       = Some \<lparr>t_request_id = ''r1'', t_status = ''ready'', t_progress = 0, t_created_at = 20,
           t_sender_id = ''u1'', t_receiver_id = ''u2'', t_filename = ''f.txt'',
           t_transfer_mode = ''p2p'', t_file_path = None, t_completed_at = None\<rparr>"
proof -
  have z: "map_of (transfer_requests example_state) ''zz'' = None"
    by (simp add: example_state_def)
  have r: "map_of (transfer_requests example_state) ''r1'' = Some request_1"
    by (simp add: example_state_def)
  have on: "\<exists>(peer_id, peer_data) \<in> set (connected_peers example_state).
              p_user_id peer_data = q_sender_id request_1 \<and> p_status peer_data = ''online''"
    by (simp add: example_defs)
  from approve_transfer_effect[of example_state "''zz''" "''t2''" 20 request_1] z
  have 1: "approve_transfer ''zz'' ''t2'' 20 example_state
       = (Json 404 [(''error'', JStr ''Transfer request not found'')], example_state)"
    by blast
  from approve_transfer_effect[of example_state "''r1''" "''t2''" 20 request_1] r on
  have 2: "fst (approve_transfer ''r1'' ''t2'' 20 example_state)
       = Json 200 [(''status'', JStr ''approved''), (''transfer_id'', JStr ''t2''),
           (''sender_online'', JBool True)]"
    and 3: "map_of (active_transfers (snd (approve_transfer ''r1'' ''t2'' 20 example_state))) ''t2''
       = Some \<lparr>t_request_id = ''r1'', t_status = ''ready'', t_progress = 0, t_created_at = 20,
           t_sender_id = ''u1'', t_receiver_id = ''u2'', t_filename = ''f.txt'',
           t_transfer_mode = ''p2p'', t_file_path = None, t_completed_at = None\<rparr>"
    by (simp_all add: request_1_def)
  show ?thesis using z r 1 2 3 by blast
qed

lemma approve_transfer_keeps_request:
  assumes "has_key rid (transfer_requests s)"
  shows "has_key rid (transfer_requests (snd (approve_transfer rid tid now s)))"
proof -
  from assms obtain q where q: "map_of (transfer_requests s) rid = Some q"
    by (auto simp: has_key_def)
  show ?thesis
    by (simp add: approve_transfer_requests[OF q] has_key_keys keys_map_entry)
       (use assms in \<open>simp add: has_key_keys\<close>)
qed

lemma approve_all_Cons_fst:
  "fst (approve_all rid ((tid, now) # rest) s)
     = fst (approve_transfer rid tid now s)
       # fst (approve_all rid rest (snd (approve_transfer rid tid now s)))"
  by (simp add: Let_def case_prod_beta)

lemma approve_all_Cons_snd:
  "snd (approve_all rid ((tid, now) # rest) s)
     = snd (approve_all rid rest (snd (approve_transfer rid tid now s)))"
  by (simp add: Let_def case_prod_beta)

lemma approve_all_length: "length (fst (approve_all rid calls s)) = length calls"
proof (induction calls arbitrary: s)
  case Nil
  then show ?case by simp
next
  case (Cons c calls)
  obtain tid now where c: "c = (tid, now)" by (cases c)
  show ?case unfolding c approve_all_Cons_fst using Cons.IH by simp
qed

lemma approve_all_responses:
  "has_key rid (transfer_requests s) \<Longrightarrow>
   \<forall>r \<in> set (fst (approve_all rid calls s)). \<exists>b. r = Json 200 b"
proof (induction calls arbitrary: s)
  case Nil
  then show ?case by simp
next
  case (Cons c calls)
  obtain tid now where c: "c = (tid, now)" by (cases c)
  from Cons.prems obtain q where q: "map_of (transfer_requests s) rid = Some q"
    by (auto simp: has_key_def)
  let ?s1 = "snd (approve_transfer rid tid now s)"
  have k: "has_key rid (transfer_requests ?s1)"
    by (rule approve_transfer_keeps_request[OF Cons.prems])
  have r: "\<exists>b. fst (approve_transfer rid tid now s) = Json 200 b"
    using approve_transfer_response[OF q] by simp
  show ?case
    unfolding c approve_all_Cons_fst using Cons.IH[OF k] r by auto
qed

lemma approve_all_untouched:
  "has_key rid (transfer_requests s) \<Longrightarrow> k \<notin> fst ` set calls \<Longrightarrow>
   map_of (active_transfers (snd (approve_all rid calls s))) k = map_of (active_transfers s) k"
proof (induction calls arbitrary: s)
  case Nil
  then show ?case by simp
next
  case (Cons c calls)
  obtain tid now where c: "c = (tid, now)" by (cases c)
  from Cons.prems obtain q where q: "map_of (transfer_requests s) rid = Some q"
    by (auto simp: has_key_def)
  let ?s1 = "snd (approve_transfer rid tid now s)"
  have k1: "has_key rid (transfer_requests ?s1)"
    by (rule approve_transfer_keeps_request[OF Cons.prems(1)])
  have ne: "k \<noteq> tid" and nin: "k \<notin> fst ` set calls"
    using Cons.prems(2) c by auto
  have "map_of (active_transfers (snd (approve_all rid calls ?s1))) k
          = map_of (active_transfers ?s1) k"
    by (rule Cons.IH[OF k1 nin])
  also have "\<dots> = map_of (active_transfers s) k"
    using ne by (simp add: approve_transfer_transfers[OF q] update_conv')
  finally show ?case
    unfolding c approve_all_Cons_snd .
qed

lemma approve_all_created:
  "has_key rid (transfer_requests s) \<Longrightarrow> distinct (map fst calls) \<Longrightarrow>
   (tid, now) \<in> set calls \<Longrightarrow>
   \<exists>t. map_of (active_transfers (snd (approve_all rid calls s))) tid = Some t
      \<and> t_request_id t = rid \<and> t_status t = ''ready''"
proof (induction calls arbitrary: s)
  case Nil
  then show ?case by simp
next
  case (Cons c calls)
  obtain tid' now' where c: "c = (tid', now')" by (cases c)
  from Cons.prems(1) obtain q where q: "map_of (transfer_requests s) rid = Some q"
    by (auto simp: has_key_def)
  let ?s1 = "snd (approve_transfer rid tid' now' s)"
  have k1: "has_key rid (transfer_requests ?s1)"
    by (rule approve_transfer_keeps_request[OF Cons.prems(1)])
  have d: "distinct (map fst calls)" and nin: "tid' \<notin> fst ` set calls"
    using Cons.prems(2) c by auto
  have unfold: "snd (approve_all rid (c # calls) s) = snd (approve_all rid calls ?s1)"
    unfolding c by (rule approve_all_Cons_snd)
  show ?case
  proof (cases "(tid, now) \<in> set calls")
    case True
    from Cons.IH[OF k1 d True] show ?thesis by (simp add: unfold)
  next
    case False
    with Cons.prems(3) c have eq: "tid = tid'" by auto
    have "map_of (active_transfers (snd (approve_all rid calls ?s1))) tid'
            = map_of (active_transfers ?s1) tid'"
      by (rule approve_all_untouched[OF k1 nin])
    then show ?thesis
      by (simp add: unfold eq approve_transfer_transfers[OF q] update_conv')
  qed
qed

text \<open>
  C8: approval is not limited to once per request. Approving a known request any
  number of times in a row, with pairwise distinct drawn transfer ids, succeeds every
  time (200, also when the request is already \<open>approved\<close>), and afterwards each drawn id
  names an active transfer in status \<open>ready\<close> that refers to the same request: one
  request has at least as many active transfers as it was approved times.
\<close>

theorem approve_transfer_repeatable:
  assumes "has_key rid (transfer_requests s)" and "distinct (map fst calls)"
  shows "length (fst (approve_all rid calls s)) = length calls
       \<and> (\<forall>r \<in> set (fst (approve_all rid calls s)). \<exists>b. r = Json 200 b)
       \<and> (\<forall>tid \<in> fst ` set calls.
            \<exists>t. map_of (active_transfers (snd (approve_all rid calls s))) tid = Some t
               \<and> t_request_id t = rid \<and> t_status t = ''ready'')
       \<and> length calls
           \<le> card {tid. \<exists>t. map_of (active_transfers (snd (approve_all rid calls s))) tid = Some t
                          \<and> t_request_id t = rid}"
proof -
  let ?ats = "active_transfers (snd (approve_all rid calls s))"
  let ?A = "{tid. \<exists>t. map_of ?ats tid = Some t \<and> t_request_id t = rid}"
  have created: "\<forall>tid \<in> fst ` set calls.
            \<exists>t. map_of ?ats tid = Some t \<and> t_request_id t = rid \<and> t_status t = ''ready''"
    using approve_all_created[OF assms] by fastforce
  have sub: "fst ` set calls \<subseteq> ?A"
    using created by blast
  have "?A \<subseteq> dom (map_of ?ats)" by auto
  then have fin: "finite ?A"
    by (rule finite_subset) (rule finite_dom_map_of)
  have "length calls = length (map fst calls)" by simp
  also have "\<dots> = card (set (map fst calls))"
    using assms(2) by (rule distinct_card[symmetric])
  also have "\<dots> \<le> card ?A"
    using sub fin by (simp add: card_mono)
  finally have cnt: "length calls \<le> card ?A" .
  show ?thesis
    using approve_all_length[of rid calls s] approve_all_responses[OF assms(1), of calls]
      created cnt
    by blast
qed

theorem approve_transfer_repeatable_witness:
  "has_key ''r1'' (transfer_requests example_state)
   \<and> distinct (map fst [(''t2'', 20::int), (''t3'', 21)])
   \<and> (\<exists>t. map_of (active_transfers
              (snd (approve_all ''r1'' [(''t2'', 20), (''t3'', 21)] example_state))) ''t2'' = Some t
          \<and> t_request_id t = ''r1'' \<and> t_status t = ''ready'')
   \<and> (\<exists>t. map_of (active_transfers
              (snd (approve_all ''r1'' [(''t2'', 20), (''t3'', 21)] example_state))) ''t3'' = Some t
          \<and> t_request_id t = ''r1'' \<and> t_status t = ''ready'')"
proof -
  have a: "has_key ''r1'' (transfer_requests example_state)"
    by (simp add: has_key_def example_state_def)
  have d: "distinct (map fst [(''t2'', 20::int), (''t3'', 21)])"
    by simp
  show ?thesis
    using a d approve_transfer_repeatable[OF a d] by simp
qed

section \<open>The liveness sweep\<close>

lemma map_fst_map_entry: "map fst (AList.map_entry k f d) = map fst d"
  by (induction d) auto

lemma cleanup_loop_frame:
  "\<exists>ps. cleanup_loop now xs s = s\<lparr>connected_peers := ps\<rparr>"
proof (induction xs arbitrary: s)
  case Nil
  have "cleanup_loop now [] s = s\<lparr>connected_peers := connected_peers s\<rparr>" by simp
  then show ?case by blast
next
  case (Cons x xs)
  obtain k pd where x: "x = (k, pd)" by (cases x)
  show ?case
  proof (cases "p_status pd = ''online'' \<and> now - p_last_seen pd > 60000000")
    case True
    let ?s1 = "s\<lparr>connected_peers :=
                  AList.map_entry k (\<lambda>p. p\<lparr>p_status := ''offline''\<rparr>) (connected_peers s)\<rparr>"
    have step: "cleanup_loop now (x # xs) s = cleanup_loop now xs ?s1"
      using True x by simp
    from Cons.IH[of ?s1] obtain ps where
      "cleanup_loop now xs ?s1 = ?s1\<lparr>connected_peers := ps\<rparr>" by blast
    then have "cleanup_loop now (x # xs) s = s\<lparr>connected_peers := ps\<rparr>"
      by (simp add: step)
    then show ?thesis by blast
  next
    case False
    then have "cleanup_loop now (x # xs) s = cleanup_loop now xs s"
      using x by auto
    then show ?thesis using Cons.IH[of s] by simp
  qed
qed

lemma cleanup_loop_keys:
  "map fst (connected_peers (cleanup_loop now xs s)) = map fst (connected_peers s)"
  by (induction xs arbitrary: s) (auto simp: map_fst_map_entry)

lemma map_of_map_entry_if:
  "map_of (AList.map_entry k' f d) k
     = (if k = k' then map_option f (map_of d k) else map_of d k)"
  by (simp add: map_of_map_entry split: option.splits)

lemma cleanup_loop_map_of:
  "map_of (connected_peers (cleanup_loop now xs s)) k
     = (if \<exists>pd. (k, pd) \<in> set xs \<and> p_status pd = ''online'' \<and> now - p_last_seen pd > 60000000
        then map_option (\<lambda>p. p\<lparr>p_status := ''offline''\<rparr>) (map_of (connected_peers s) k)
        else map_of (connected_peers s) k)"
proof (induction xs arbitrary: s)
  case Nil
  then show ?case by simp
next
  case (Cons x xs)
  obtain k' pd' where x: "x = (k', pd')" by (cases x)
  define stale where "stale = (\<lambda>pd::peer. p_status pd = ''online'' \<and> now - p_last_seen pd > 60000000)"
  define off where "off = (\<lambda>p::peer. p\<lparr>p_status := ''offline''\<rparr>)"
  have off_idem: "map_option off (map_option off v) = map_option off v" for v
    by (cases v) (simp_all add: off_def)
  have IH: "map_of (connected_peers (cleanup_loop now xs s')) k
     = (if \<exists>pd. (k, pd) \<in> set xs \<and> stale pd
        then map_option off (map_of (connected_peers s') k)
        else map_of (connected_peers s') k)" for s'
    unfolding stale_def off_def by (rule Cons.IH)
  have goal: "map_of (connected_peers (cleanup_loop now (x # xs) s)) k
     = (if \<exists>pd. (k, pd) \<in> set (x # xs) \<and> stale pd
        then map_option off (map_of (connected_peers s) k)
        else map_of (connected_peers s) k)"
  proof (cases "stale pd'")
    case True
    let ?s1 = "s\<lparr>connected_peers := AList.map_entry k' off (connected_peers s)\<rparr>"
    have step: "cleanup_loop now (x # xs) s = cleanup_loop now xs ?s1"
      using True unfolding x stale_def off_def by simp
    have m: "map_of (connected_peers ?s1) k
               = (if k = k' then map_option off (map_of (connected_peers s) k)
                  else map_of (connected_peers s) k)"
      by (simp add: map_of_map_entry_if)
    show ?thesis
    proof (cases "k = k'")
      case True
      with \<open>stale pd'\<close> have ex: "\<exists>pd. (k, pd) \<in> set (x # xs) \<and> stale pd"
        unfolding x by auto
      show ?thesis
        unfolding step IH m using ex True by (auto simp add: off_idem)
    next
      case False
      then have ex: "(\<exists>pd. (k, pd) \<in> set (x # xs) \<and> stale pd)
                      \<longleftrightarrow> (\<exists>pd. (k, pd) \<in> set xs \<and> stale pd)"
        unfolding x by auto
      show ?thesis
        unfolding step IH m using ex False by auto
    qed
  next
    case False
    have step: "cleanup_loop now (x # xs) s = cleanup_loop now xs s"
      using False unfolding x stale_def by auto
    have ex: "(\<exists>pd. (k, pd) \<in> set (x # xs) \<and> stale pd)
                \<longleftrightarrow> (\<exists>pd. (k, pd) \<in> set xs \<and> stale pd)"
      using False unfolding x by auto
    show ?thesis
      unfolding step IH using ex by auto
  qed
  then show ?case unfolding stale_def off_def .
qed

text \<open>
  C5: one pass of the sweep at clock reading \<open>now\<close> changes nothing but
  \<open>connected_peers\<close>, keeps its keys and their order, and maps every peer to itself
  with status \<open>offline\<close> when it was \<open>online\<close> and \<open>now - last_seen\<close> is strictly more
  than 60 seconds, and to itself unchanged otherwise. So exactly the online peers
  silent for more than 60 seconds are demoted, a peer refreshed within the window is
  not, and a demoted peer keeps every field but its status, its \<open>socket_id\<close> included.
\<close>

theorem cleanup_demotes_exactly_stale:
  assumes "distinct (map fst (connected_peers s))"
  shows "\<exists>ps. cleanup_inactive_peers now s = s\<lparr>connected_peers := ps\<rparr>
            \<and> map fst ps = map fst (connected_peers s)
            \<and> (\<forall>k p. map_of (connected_peers s) k = Some p \<longrightarrow>
                  map_of ps k
                    = Some (if p_status p = ''online'' \<and> now - p_last_seen p > 60000000
                            then p\<lparr>p_status := ''offline''\<rparr> else p))"
proof -
  let ?ps = "connected_peers (cleanup_inactive_peers now s)"
  have 1: "cleanup_inactive_peers now s = s\<lparr>connected_peers := ?ps\<rparr>"
  proof -
    from cleanup_loop_frame[of now "connected_peers s" s] obtain ps where
      e: "cleanup_inactive_peers now s = s\<lparr>connected_peers := ps\<rparr>"
      unfolding cleanup_inactive_peers_def by blast
    have "connected_peers (cleanup_inactive_peers now s) = ps"
      by (simp add: e)
    with e show ?thesis by simp
  qed
  have 2: "map fst ?ps = map fst (connected_peers s)"
    unfolding cleanup_inactive_peers_def by (rule cleanup_loop_keys)
  have 3: "map_of ?ps k
             = Some (if p_status p = ''online'' \<and> now - p_last_seen p > 60000000
                     then p\<lparr>p_status := ''offline''\<rparr> else p)"
    if p: "map_of (connected_peers s) k = Some p" for k p
  proof -
    have mem: "(k, pd) \<in> set (connected_peers s) \<longleftrightarrow> pd = p" for pd
      using assms p by (metis map_of_eq_Some_iff option.inject)
    show ?thesis
      unfolding cleanup_inactive_peers_def cleanup_loop_map_of
      using p by (simp add: mem)
  qed
  show ?thesis using 1 2 3 by blast
qed

theorem cleanup_demotes_exactly_stale_witness:
  "distinct (map fst (connected_peers example_state))
   \<and> map_of (connected_peers (cleanup_inactive_peers 61000000 example_state)) ''pA''
       = Some (peer_a\<lparr>p_status := ''offline''\<rparr>)
   \<and> map_of (connected_peers (cleanup_inactive_peers 61000000 example_state)) ''pB''
       = Some peer_b
   \<and> map_of (connected_peers (cleanup_inactive_peers 61000000 example_state)) ''pC''
       = Some peer_c"
proof -
  have d: "distinct (map fst (connected_peers example_state))"
    by (simp add: example_state_def)
  from cleanup_demotes_exactly_stale[OF d, of 61000000] obtain ps where
    eq: "cleanup_inactive_peers 61000000 example_state = example_state\<lparr>connected_peers := ps\<rparr>"
    and each: "\<And>k p. map_of (connected_peers example_state) k = Some p \<Longrightarrow>
                  map_of ps k
                    = Some (if p_status p = ''online'' \<and> 61000000 - p_last_seen p > 60000000
                            then p\<lparr>p_status := ''offline''\<rparr> else p)"
    by blast
  have ps: "connected_peers (cleanup_inactive_peers 61000000 example_state) = ps"
    by (simp add: eq)
  have a: "map_of (connected_peers example_state) ''pA'' = Some peer_a"
    and b: "map_of (connected_peers example_state) ''pB'' = Some peer_b"
    and c: "map_of (connected_peers example_state) ''pC'' = Some peer_c"
    by (simp_all add: example_state_def)
  show ?thesis
    using d each[OF a] each[OF b] each[OF c]
    by (simp add: ps peer_a_def peer_b_def peer_c_def)
qed

section \<open>Signal routing\<close>

text \<open>
  In the example state peer \<open>pB\<close> is \<open>offline\<close> and still holds a socket: a signal to
  it is delivered and no relay session is opened. A signal to an unknown target from a
  sender without a socket answers \<open>relay\<close> with a message only, and emits nothing: the
  session id reaches nobody. So "delivered only when the target is online, and in every
  other case a relay result that carries the new session id" (C2) fails there.
\<close>

theorem peer_signal_offline_target_counterexample:
  "map_of (connected_peers example_state) ''pB'' = Some peer_b
   \<and> p_status peer_b = ''offline''
   \<and> peer_signal (Some ''pB'') (Some ''pA'') (JStr ''offer'') ''s9'' 30 example_state
       = ([(''status'', JStr ''success'')],
          example_state\<lparr>outbox :=
            [Emit ''peer_signal''
               [(''sender_peer_id'', JStr ''pA''), (''signal'', JStr ''offer'')] (Some ''sockB'')]\<rparr>)
   \<and> fst (peer_signal (Some ''zz'') (Some ''pC'') (JStr ''offer'') ''s9'' 30 example_state)
       = [(''status'', JStr ''relay''),
          (''message'', JStr ''Target peer unavailable, using relay'')]
   \<and> outbox (snd (peer_signal (Some ''zz'') (Some ''pC'') (JStr ''offer'') ''s9'' 30 example_state))
       = []"
  by (simp add: peer_signal_def initiate_relay_def socket_of_def emit_def jopt_def Let_def
        example_defs)

lemma initiate_relay_sessions:
  "relay_sessions (snd (initiate_relay sender receiver sid now s))
     = AList.update sid
         \<lparr>r_sender_id = sender, r_receiver_id = receiver, r_status = ''initiated'',
          r_created_at = now\<rparr>
         (relay_sessions s)"
  by (simp add: initiate_relay_def Let_def split: option.splits)

lemma initiate_relay_outbox:
  "outbox (snd (initiate_relay sender receiver sid now s))
     = outbox s
       @ (case socket_of sender (connected_peers s) of
            None \<Rightarrow> []
          | Some sender_socket_id \<Rightarrow>
              [Emit ''relay_initiated''
                 [(''session_id'', JStr sid), (''target_peer_id'', jopt receiver)]
                 (Some sender_socket_id)])"
  by (simp add: initiate_relay_def Let_def emit_def split: option.splits)

lemma initiate_relay_fields:
  "connected_peers (snd (initiate_relay sender receiver sid now s)) = connected_peers s"
  "transfer_requests (snd (initiate_relay sender receiver sid now s)) = transfer_requests s"
  "active_transfers (snd (initiate_relay sender receiver sid now s)) = active_transfers s"
  "files (snd (initiate_relay sender receiver sid now s)) = files s"
  by (simp_all add: initiate_relay_def Let_def split: option.splits)

text \<open>
  C2, as the code has it: when the target peer is known and has a socket, whatever its
  status, \<open>peer_signal\<close> emits the payload unchanged to that socket, tagged with the
  sender's peer id, answers \<open>success\<close> and changes nothing else. In every other case it
  does not fail: it answers \<open>relay\<close>, stores under the drawn id a relay session in
  status \<open>initiated\<close> from the sender to the target, leaves every other session as it
  was, and sends the session id in a \<open>relay_initiated\<close> event to the sender's socket
  when the sender has one; the answer itself does not hold the session id.
\<close>

theorem peer_signal_routes_by_socket:
  "(socket_of target (connected_peers s) = Some sock \<longrightarrow>
      peer_signal target sender signal_data sid now s
        = ([(''status'', JStr ''success'')],
           s\<lparr>outbox := outbox s
                @ [Emit ''peer_signal''
                     [(''sender_peer_id'', jopt sender), (''signal'', signal_data)] (Some sock)]\<rparr>))
   \<and> (socket_of target (connected_peers s) = None \<longrightarrow>
        fst (peer_signal target sender signal_data sid now s)
          = [(''status'', JStr ''relay''),
             (''message'', JStr ''Target peer unavailable, using relay'')]
        \<and> map_of (relay_sessions (snd (peer_signal target sender signal_data sid now s))) sid
            = Some \<lparr>r_sender_id = sender, r_receiver_id = target, r_status = ''initiated'',
                    r_created_at = now\<rparr>
        \<and> (\<forall>k. k \<noteq> sid \<longrightarrow>
              map_of (relay_sessions (snd (peer_signal target sender signal_data sid now s))) k
                = map_of (relay_sessions s) k)
        \<and> keys (relay_sessions (snd (peer_signal target sender signal_data sid now s)))
            = insert sid (keys (relay_sessions s))
        \<and> outbox (snd (peer_signal target sender signal_data sid now s))
            = outbox s
              @ (case socket_of sender (connected_peers s) of
                   None \<Rightarrow> []
                 | Some sender_socket_id \<Rightarrow>
                     [Emit ''relay_initiated''
                        [(''session_id'', JStr sid), (''target_peer_id'', jopt target)]
                        (Some sender_socket_id)]))"
proof (intro conjI impI)
  assume "socket_of target (connected_peers s) = Some sock"
  then show "peer_signal target sender signal_data sid now s
        = ([(''status'', JStr ''success'')],
           s\<lparr>outbox := outbox s
                @ [Emit ''peer_signal''
                     [(''sender_peer_id'', jopt sender), (''signal'', signal_data)] (Some sock)]\<rparr>)"
    by (simp add: peer_signal_def emit_def)
next
  assume n: "socket_of target (connected_peers s) = None"
  have snd_eq: "snd (peer_signal target sender signal_data sid now s)
                  = snd (initiate_relay sender target sid now s)"
    using n by (simp add: peer_signal_def)
  show "fst (peer_signal target sender signal_data sid now s)
          = [(''status'', JStr ''relay''),
             (''message'', JStr ''Target peer unavailable, using relay'')]"
    using n by (simp add: peer_signal_def)
  show "map_of (relay_sessions (snd (peer_signal target sender signal_data sid now s))) sid
            = Some \<lparr>r_sender_id = sender, r_receiver_id = target, r_status = ''initiated'',
                    r_created_at = now\<rparr>"
    by (simp add: snd_eq initiate_relay_sessions update_conv')
  show "\<forall>k. k \<noteq> sid \<longrightarrow>
              map_of (relay_sessions (snd (peer_signal target sender signal_data sid now s))) k
                = map_of (relay_sessions s) k"
    by (simp add: snd_eq initiate_relay_sessions update_conv')
  show "keys (relay_sessions (snd (peer_signal target sender signal_data sid now s)))
            = insert sid (keys (relay_sessions s))"
    by (simp add: snd_eq initiate_relay_sessions keys_update)
  show "outbox (snd (peer_signal target sender signal_data sid now s))
            = outbox s
              @ (case socket_of sender (connected_peers s) of
                   None \<Rightarrow> []
                 | Some sender_socket_id \<Rightarrow>
                     [Emit ''relay_initiated''
                        [(''session_id'', JStr sid), (''target_peer_id'', jopt target)]
                        (Some sender_socket_id)])"
    by (simp add: snd_eq initiate_relay_outbox)
qed

theorem peer_signal_routes_by_socket_witness:
  "socket_of (Some ''pA'') (connected_peers example_state) = Some ''sockA''
   \<and> fst (peer_signal (Some ''pA'') (Some ''pC'') (JStr ''offer'') ''s9'' 30 example_state)
       = [(''status'', JStr ''success'')]
   \<and> socket_of (Some ''pC'') (connected_peers example_state) = None
   \<and> fst (peer_signal (Some ''pC'') (Some ''pA'') (JStr ''offer'') ''s9'' 30 example_state)
       = [(''status'', JStr ''relay''),
          (''message'', JStr ''Target peer unavailable, using relay'')]
   \<and> map_of (relay_sessions
         (snd (peer_signal (Some ''pC'') (Some ''pA'') (JStr ''offer'') ''s9'' 30 example_state))) ''s9''
       = Some \<lparr>r_sender_id = Some ''pA'', r_receiver_id = Some ''pC'', r_status = ''initiated'',
               r_created_at = 30\<rparr>"
proof -
  have a: "socket_of (Some ''pA'') (connected_peers example_state) = Some ''sockA''"
    by (simp add: socket_of_def example_defs)
  have c: "socket_of (Some ''pC'') (connected_peers example_state) = None"
    by (simp add: socket_of_def example_defs)
  from peer_signal_routes_by_socket
         [of "Some ''pA''" example_state "''sockA''" "Some ''pC''" "JStr ''offer''" "''s9''" 30] a
  have 1: "fst (peer_signal (Some ''pA'') (Some ''pC'') (JStr ''offer'') ''s9'' 30 example_state)
       = [(''status'', JStr ''success'')]"
    by simp
  from peer_signal_routes_by_socket
         [of "Some ''pC''" example_state "''sockA''" "Some ''pA''" "JStr ''offer''" "''s9''" 30] c
  have 2: "fst (peer_signal (Some ''pC'') (Some ''pA'') (JStr ''offer'') ''s9'' 30 example_state)
       = [(''status'', JStr ''relay''),
          (''message'', JStr ''Target peer unavailable, using relay'')]"
    and 3: "map_of (relay_sessions
         (snd (peer_signal (Some ''pC'') (Some ''pA'') (JStr ''offer'') ''s9'' 30 example_state))) ''s9''
       = Some \<lparr>r_sender_id = Some ''pA'', r_receiver_id = Some ''pC'', r_status = ''initiated'',
               r_created_at = 30\<rparr>"
    by blast+
  show ?thesis using a c 1 2 3 by blast
qed

section \<open>Relay chunks: the three branches\<close>

text \<open>
  Session \<open>s1\<close> of the example state is known and its receiver has no socket: the final
  chunk (index 4 of 5) is answered \<open>queued\<close> and the session stays \<open>initiated\<close>. So
  "for every known session the final chunk completes the session" (C3) fails there.
\<close>

theorem relay_chunk_final_not_completed_counterexample:
  "map_of (relay_sessions example_state) ''s1'' = Some session_1
   \<and> r_status session_1 = ''initiated''
   \<and> relay_chunk (Some ''s1'') (JStr ''data'') (Some 4) (Some 5) example_state
       = ([(''status'', JStr ''queued''), (''message'', JStr ''Receiver offline, chunk queued'')],
          example_state)"
  by (simp add: relay_chunk_def socket_of_def example_defs)

text \<open>
  C3, as the code has it: for an absent or unknown session id \<open>relay_chunk\<close> answers
  \<open>error\<close> (invalid relay session) and the state is unchanged. For a known session
  whose receiver has a socket, whatever the receiver's status, the final chunk
  (\<open>index = total - 1\<close>) is emitted to that socket with the session id, index and
  total, the answer is \<open>success\<close> and the session becomes \<open>completed\<close>, the other
  sessions staying as they were. For a known session whose receiver has no socket the
  answer is \<open>queued\<close> and the state is unchanged.
\<close>

theorem relay_chunk_effect:
  "(session_id = None \<or> (\<exists>sess. session_id = Some sess \<and> map_of (relay_sessions s) sess = None)
      \<longrightarrow> relay_chunk session_id chunk_data chunk_index total_chunks s
            = ([(''status'', JStr ''error''), (''message'', JStr ''Invalid relay session'')], s))
   \<and> (map_of (relay_sessions s) sess = Some rs
        \<and> socket_of (r_receiver_id rs) (connected_peers s) = Some sock
      \<longrightarrow> fst (relay_chunk (Some sess) chunk_data (Some (tot - 1)) (Some tot) s)
            = [(''status'', JStr ''success'')]
          \<and> outbox (snd (relay_chunk (Some sess) chunk_data (Some (tot - 1)) (Some tot) s))
            = outbox s
              @ [Emit ''relay_chunk''
                   [(''session_id'', JStr sess), (''chunk'', chunk_data),
                    (''index'', JInt (tot - 1)), (''total'', JInt tot)] (Some sock)]
          \<and> map_of (relay_sessions
                (snd (relay_chunk (Some sess) chunk_data (Some (tot - 1)) (Some tot) s))) sess
            = Some (rs\<lparr>r_status := ''completed''\<rparr>)
          \<and> (\<forall>k. k \<noteq> sess \<longrightarrow>
                map_of (relay_sessions
                  (snd (relay_chunk (Some sess) chunk_data (Some (tot - 1)) (Some tot) s))) k
                  = map_of (relay_sessions s) k))
   \<and> (map_of (relay_sessions s) sess = Some rs
        \<and> socket_of (r_receiver_id rs) (connected_peers s) = None
      \<longrightarrow> relay_chunk (Some sess) chunk_data chunk_index total_chunks s
            = ([(''status'', JStr ''queued''),
                (''message'', JStr ''Receiver offline, chunk queued'')], s))"
proof (intro conjI impI)
  assume "session_id = None
          \<or> (\<exists>sess. session_id = Some sess \<and> map_of (relay_sessions s) sess = None)"
  then show "relay_chunk session_id chunk_data chunk_index total_chunks s
            = ([(''status'', JStr ''error''), (''message'', JStr ''Invalid relay session'')], s)"
    by (auto simp add: relay_chunk_def)
next
  assume a: "map_of (relay_sessions s) sess = Some rs
             \<and> socket_of (r_receiver_id rs) (connected_peers s) = Some sock"
  let ?r = "relay_chunk (Some sess) chunk_data (Some (tot - 1)) (Some tot) s"
  have r: "?r = ([(''status'', JStr ''success'')],
                 (emit ''relay_chunk''
                    [(''session_id'', JStr sess), (''chunk'', chunk_data),
                     (''index'', JInt (tot - 1)), (''total'', JInt tot)] (Some sock) s)
                 \<lparr>relay_sessions :=
                    AList.map_entry sess (\<lambda>r. r\<lparr>r_status := ''completed''\<rparr>) (relay_sessions s)\<rparr>)"
    using a by (simp add: relay_chunk_def Let_def jint_def)
  show "fst ?r = [(''status'', JStr ''success'')]"
    by (simp add: r)
  show "outbox (snd ?r)
            = outbox s
              @ [Emit ''relay_chunk''
                   [(''session_id'', JStr sess), (''chunk'', chunk_data),
                    (''index'', JInt (tot - 1)), (''total'', JInt tot)] (Some sock)]"
    by (simp add: r emit_def)
  show "map_of (relay_sessions (snd ?r)) sess = Some (rs\<lparr>r_status := ''completed''\<rparr>)"
    using a by (simp add: r map_of_map_entry)
  show "\<forall>k. k \<noteq> sess \<longrightarrow> map_of (relay_sessions (snd ?r)) k = map_of (relay_sessions s) k"
    by (simp add: r map_of_map_entry)
next
  assume "map_of (relay_sessions s) sess = Some rs
          \<and> socket_of (r_receiver_id rs) (connected_peers s) = None"
  then show "relay_chunk (Some sess) chunk_data chunk_index total_chunks s
            = ([(''status'', JStr ''queued''),
                (''message'', JStr ''Receiver offline, chunk queued'')], s)"
    by (simp add: relay_chunk_def)
qed

theorem relay_chunk_effect_witness:
  "map_of (relay_sessions example_state) ''zz'' = None
   \<and> relay_chunk (Some ''zz'') (JStr ''data'') (Some 4) (Some 5) example_state
       = ([(''status'', JStr ''error''), (''message'', JStr ''Invalid relay session'')],
          example_state)
   \<and> map_of (relay_sessions example_state) ''s2'' = Some session_2
   \<and> socket_of (r_receiver_id session_2) (connected_peers example_state) = Some ''sockA''
   \<and> map_of (relay_sessions
         (snd (relay_chunk (Some ''s2'') (JStr ''data'') (Some (5 - 1)) (Some 5) example_state))) ''s2''
       = Some (session_2\<lparr>r_status := ''completed''\<rparr>)
   \<and> map_of (relay_sessions example_state) ''s1'' = Some session_1
   \<and> socket_of (r_receiver_id session_1) (connected_peers example_state) = None
   \<and> fst (relay_chunk (Some ''s1'') (JStr ''data'') (Some 4) (Some 5) example_state)
       = [(''status'', JStr ''queued''), (''message'', JStr ''Receiver offline, chunk queued'')]"
proof -
  have z: "map_of (relay_sessions example_state) ''zz'' = None"
    and s2: "map_of (relay_sessions example_state) ''s2'' = Some session_2"
    and s1: "map_of (relay_sessions example_state) ''s1'' = Some session_1"
    by (simp_all add: example_state_def)
  have k2: "socket_of (r_receiver_id session_2) (connected_peers example_state) = Some ''sockA''"
    and k1: "socket_of (r_receiver_id session_1) (connected_peers example_state) = None"
    by (simp_all add: socket_of_def example_defs)
  from relay_chunk_effect
         [of "Some ''zz''" example_state "JStr ''data''" "Some 4" "Some 5" "''s2''" session_2
             "''sockA''" 5] z
  have 1: "relay_chunk (Some ''zz'') (JStr ''data'') (Some 4) (Some 5) example_state
       = ([(''status'', JStr ''error''), (''message'', JStr ''Invalid relay session'')],
          example_state)"
    by blast
  from relay_chunk_effect
         [of "Some ''zz''" example_state "JStr ''data''" "Some 4" "Some 5" "''s2''" session_2
             "''sockA''" 5] s2 k2
  have 2: "map_of (relay_sessions
         (snd (relay_chunk (Some ''s2'') (JStr ''data'') (Some (5 - 1)) (Some 5) example_state))) ''s2''
       = Some (session_2\<lparr>r_status := ''completed''\<rparr>)"
    by blast
  from relay_chunk_effect
         [of "Some ''zz''" example_state "JStr ''data''" "Some 4" "Some 5" "''s1''" session_1
             "''sockA''" 5] s1 k1
  have 3: "fst (relay_chunk (Some ''s1'') (JStr ''data'') (Some 4) (Some 5) example_state)
       = [(''status'', JStr ''queued''), (''message'', JStr ''Receiver offline, chunk queued'')]"
    by simp
  show ?thesis using z s2 s1 k2 k1 1 2 3 by blast
qed

section \<open>The registries only grow\<close>

lemma disconnect_loop_keys:
  "keys (connected_peers (disconnect_loop sid now_at xs s)) = keys (connected_peers s)
   \<and> transfer_requests (disconnect_loop sid now_at xs s) = transfer_requests s
   \<and> active_transfers (disconnect_loop sid now_at xs s) = active_transfers s
   \<and> relay_sessions (disconnect_loop sid now_at xs s) = relay_sessions s"
proof (induction xs arbitrary: s)
  case Nil
  then show ?case by simp
next
  case (Cons x xs)
  obtain k pd where x: "x = (k, pd)" by (cases x)
  show ?case
  proof (cases "p_socket_id pd = Some sid")
    case True
    let ?s1 = "emit ''peer_disconnected'' [(''peer_id'', JStr k)] None
            (s\<lparr>connected_peers :=
                 AList.map_entry k
                   (\<lambda>p. p\<lparr>p_status := ''offline'', p_disconnected_at := Some (now_at k)\<rparr>)
                   (connected_peers s)\<rparr>)"
    have step: "disconnect_loop sid now_at (x # xs) s = disconnect_loop sid now_at xs ?s1"
      using True x by simp
    have s1: "keys (connected_peers ?s1) = keys (connected_peers s)"
      "transfer_requests ?s1 = transfer_requests s"
      "active_transfers ?s1 = active_transfers s"
      "relay_sessions ?s1 = relay_sessions s"
      by (simp_all add: keys_map_entry)
    show ?thesis
      unfolding step using Cons.IH[of ?s1] s1 by simp
  next
    case False
    then have step: "disconnect_loop sid now_at (x # xs) s = disconnect_loop sid now_at xs s"
      using x by simp
    show ?thesis unfolding step by (rule Cons.IH)
  qed
qed

lemma cleanup_inactive_peers_keys:
  "keys (connected_peers (cleanup_inactive_peers now s)) = keys (connected_peers s)
   \<and> transfer_requests (cleanup_inactive_peers now s) = transfer_requests s
   \<and> active_transfers (cleanup_inactive_peers now s) = active_transfers s
   \<and> relay_sessions (cleanup_inactive_peers now s) = relay_sessions s"
proof -
  from cleanup_loop_frame[of now "connected_peers s" s] obtain ps where
    e: "cleanup_inactive_peers now s = s\<lparr>connected_peers := ps\<rparr>"
    unfolding cleanup_inactive_peers_def by blast
  have "map fst (connected_peers (cleanup_inactive_peers now s)) = map fst (connected_peers s)"
    unfolding cleanup_inactive_peers_def by (rule cleanup_loop_keys)
  then have "set (map fst (connected_peers (cleanup_inactive_peers now s)))
               = set (map fst (connected_peers s))"
    by simp
  then have "keys (connected_peers (cleanup_inactive_peers now s)) = keys (connected_peers s)"
    by (simp add: keys_def)
  then show ?thesis by (simp add: e)
qed

lemma register_socket_keys:
  "keys (connected_peers (snd (register_socket sid peer_id now s))) = keys (connected_peers s)
   \<and> transfer_requests (snd (register_socket sid peer_id now s)) = transfer_requests s
   \<and> active_transfers (snd (register_socket sid peer_id now s)) = active_transfers s
   \<and> relay_sessions (snd (register_socket sid peer_id now s)) = relay_sessions s"
  by (simp add: register_socket_def keys_map_entry split: option.splits)

lemma peer_signal_keys:
  "connected_peers (snd (peer_signal target sender signal_data session_id now s)) = connected_peers s
   \<and> transfer_requests (snd (peer_signal target sender signal_data session_id now s))
       = transfer_requests s
   \<and> active_transfers (snd (peer_signal target sender signal_data session_id now s))
       = active_transfers s
   \<and> keys (relay_sessions s)
       \<subseteq> keys (relay_sessions (snd (peer_signal target sender signal_data session_id now s)))"
  by (auto simp add: peer_signal_def initiate_relay_fields initiate_relay_sessions keys_update
        split: option.splits)

lemma relay_chunk_keys:
  "connected_peers (snd (relay_chunk session_id chunk_data chunk_index total_chunks s))
     = connected_peers s
   \<and> transfer_requests (snd (relay_chunk session_id chunk_data chunk_index total_chunks s))
       = transfer_requests s
   \<and> active_transfers (snd (relay_chunk session_id chunk_data chunk_index total_chunks s))
       = active_transfers s
   \<and> keys (relay_sessions (snd (relay_chunk session_id chunk_data chunk_index total_chunks s)))
       = keys (relay_sessions s)"
  by (simp add: relay_chunk_def Let_def keys_map_entry split: option.splits)

lemma connect_peer_keys:
  "keys (connected_peers s)
     \<subseteq> keys (connected_peers (snd (connect_peer cfg user_id remote_addr peer_id now1 now2 s)))
   \<and> transfer_requests (snd (connect_peer cfg user_id remote_addr peer_id now1 now2 s))
       = transfer_requests s
   \<and> active_transfers (snd (connect_peer cfg user_id remote_addr peer_id now1 now2 s))
       = active_transfers s
   \<and> relay_sessions (snd (connect_peer cfg user_id remote_addr peer_id now1 now2 s))
       = relay_sessions s"
  by (auto simp add: connect_peer_def keys_update split: option.splits)

lemma heartbeat_keys:
  "keys (connected_peers (snd (heartbeat peer_id now s))) = keys (connected_peers s)
   \<and> transfer_requests (snd (heartbeat peer_id now s)) = transfer_requests s
   \<and> active_transfers (snd (heartbeat peer_id now s)) = active_transfers s
   \<and> relay_sessions (snd (heartbeat peer_id now s)) = relay_sessions s"
  by (simp add: heartbeat_def keys_map_entry)

lemma request_file_transfer_keys:
  "connected_peers (snd (request_file_transfer sender receiver fname request_id now s))
     = connected_peers s
   \<and> keys (transfer_requests s)
       \<subseteq> keys (transfer_requests (snd (request_file_transfer sender receiver fname request_id now s)))
   \<and> active_transfers (snd (request_file_transfer sender receiver fname request_id now s))
       = active_transfers s
   \<and> relay_sessions (snd (request_file_transfer sender receiver fname request_id now s))
       = relay_sessions s"
  by (auto simp add: request_file_transfer_def Let_def keys_update split: option.splits)

lemma approve_transfer_keys:
  "connected_peers (snd (approve_transfer request_id transfer_id now s)) = connected_peers s
   \<and> keys (transfer_requests (snd (approve_transfer request_id transfer_id now s)))
       = keys (transfer_requests s)
   \<and> keys (active_transfers s)
       \<subseteq> keys (active_transfers (snd (approve_transfer request_id transfer_id now s)))
   \<and> relay_sessions (snd (approve_transfer request_id transfer_id now s)) = relay_sessions s"
  by (auto simp add: approve_transfer_def Let_def keys_update keys_map_entry)

lemma upload_file_keys:
  "connected_peers (snd (upload_file transfer_id file secure_filename save_error now s))
     = connected_peers s
   \<and> transfer_requests (snd (upload_file transfer_id file secure_filename save_error now s))
       = transfer_requests s
   \<and> keys (active_transfers (snd (upload_file transfer_id file secure_filename save_error now s)))
       = keys (active_transfers s)
   \<and> relay_sessions (snd (upload_file transfer_id file secure_filename save_error now s))
       = relay_sessions s"
  by (simp add: upload_file_def Let_def keys_map_entry split: option.splits)

lemma update_transfer_status_keys:
  "connected_peers (snd (update_transfer_status transfer_id status progress now s))
     = connected_peers s
   \<and> transfer_requests (snd (update_transfer_status transfer_id status progress now s))
       = transfer_requests s
   \<and> keys (active_transfers (snd (update_transfer_status transfer_id status progress now s)))
       = keys (active_transfers s)
   \<and> relay_sessions (snd (update_transfer_status transfer_id status progress now s))
       = relay_sessions s"
  by (simp add: update_transfer_status_def Let_def keys_map_entry split: option.splits)

lemma cancel_transfer_keys:
  "connected_peers (snd (cancel_transfer transfer_id s)) = connected_peers s
   \<and> transfer_requests (snd (cancel_transfer transfer_id s)) = transfer_requests s
   \<and> keys (active_transfers (snd (cancel_transfer transfer_id s))) = keys (active_transfers s)
   \<and> relay_sessions (snd (cancel_transfer transfer_id s)) = relay_sessions s"
  by (simp add: cancel_transfer_def Let_def keys_map_entry split: option.splits)

lemma disconnect_peer_keys:
  "keys (connected_peers (snd (disconnect_peer peer_id now s))) = keys (connected_peers s)
   \<and> transfer_requests (snd (disconnect_peer peer_id now s)) = transfer_requests s
   \<and> active_transfers (snd (disconnect_peer peer_id now s)) = active_transfers s
   \<and> relay_sessions (snd (disconnect_peer peer_id now s)) = relay_sessions s"
  by (simp add: disconnect_peer_def keys_map_entry)

lemma step_keys:
  "keys (connected_peers s) \<subseteq> keys (connected_peers (step c s))
   \<and> keys (transfer_requests s) \<subseteq> keys (transfer_requests (step c s))
   \<and> keys (active_transfers s) \<subseteq> keys (active_transfers (step c s))
   \<and> keys (relay_sessions s) \<subseteq> keys (relay_sessions (step c s))"
proof (cases c)
  case (SioConnect sid)
  then show ?thesis by (simp add: connect_def)
next
  case (SioDisconnect sid now_at)
  then show ?thesis
    using disconnect_loop_keys[of sid now_at "connected_peers s" s]
    by (simp add: disconnect_def)
next
  case (RegisterSocket sid peer_id now)
  then show ?thesis using register_socket_keys[of sid peer_id now s] by simp
next
  case (PeerSignal target sender signal_data session_id now)
  then show ?thesis using peer_signal_keys[of target sender signal_data session_id now s] by simp
next
  case (RelayChunk session_id chunk_data chunk_index total_chunks)
  then show ?thesis
    using relay_chunk_keys[of session_id chunk_data chunk_index total_chunks s] by simp
next
  case (GetStatus cfg)
  then show ?thesis by simp
next
  case (ConnectPeer cfg user_id remote_addr peer_id now1 now2)
  then show ?thesis
    using connect_peer_keys[of s cfg user_id remote_addr peer_id now1 now2] by simp
next
  case (Heartbeat peer_id now)
  then show ?thesis using heartbeat_keys[of peer_id now s] by simp
next
  case (GetPeers user_id)
  then show ?thesis by simp
next
  case (RequestFileTransfer sender receiver fname request_id now)
  then show ?thesis
    using request_file_transfer_keys[of sender receiver fname request_id now s] by simp
next
  case (ApproveTransfer request_id transfer_id now)
  then show ?thesis using approve_transfer_keys[of request_id transfer_id now s] by simp
next
  case (UploadFile transfer_id upload secure_filename save_error now)
  then show ?thesis
    using upload_file_keys[of transfer_id upload secure_filename save_error now s] by simp
next
  case (DownloadFile transfer_id)
  then show ?thesis by simp
next
  case (GetTransferStatus transfer_id)
  then show ?thesis by simp
next
  case (UpdateTransferStatus transfer_id status progress now)
  then show ?thesis
    using update_transfer_status_keys[of transfer_id status progress now s] by simp
next
  case (CancelTransfer transfer_id)
  then show ?thesis using cancel_transfer_keys[of transfer_id s] by simp
next
  case (DisconnectPeer peer_id now)
  then show ?thesis using disconnect_peer_keys[of peer_id now s] by simp
next
  case (CleanupPass now)
  then show ?thesis using cleanup_inactive_peers_keys[of now s] by simp
qed

text \<open>
  C10: whatever calls are made, in whatever order (every HTTP handler, every Socket.IO
  handler with the loss of a socket among them, and the cleanup pass), the key set of
  each of the four dictionaries afterwards contains the key set before: no entry is
  ever removed. So an id that is a key stays one, and every later lookup of it in its
  dictionary finds it.
\<close>

theorem registries_never_shrink:
  "keys (connected_peers s) \<subseteq> keys (connected_peers (run cs s))
   \<and> keys (transfer_requests s) \<subseteq> keys (transfer_requests (run cs s))
   \<and> keys (active_transfers s) \<subseteq> keys (active_transfers (run cs s))
   \<and> keys (relay_sessions s) \<subseteq> keys (relay_sessions (run cs s))
   \<and> (has_key k (connected_peers s) \<longrightarrow> has_key k (connected_peers (run cs s)))
   \<and> (has_key k (transfer_requests s) \<longrightarrow> has_key k (transfer_requests (run cs s)))
   \<and> (has_key k (active_transfers s) \<longrightarrow> has_key k (active_transfers (run cs s)))
   \<and> (has_key k (relay_sessions s) \<longrightarrow> has_key k (relay_sessions (run cs s)))"
proof -
  have sub: "keys (connected_peers s) \<subseteq> keys (connected_peers (run cs s))
   \<and> keys (transfer_requests s) \<subseteq> keys (transfer_requests (run cs s))
   \<and> keys (active_transfers s) \<subseteq> keys (active_transfers (run cs s))
   \<and> keys (relay_sessions s) \<subseteq> keys (relay_sessions (run cs s))"
  proof (induction cs arbitrary: s)
    case Nil
    then show ?case by simp
  next
    case (Cons c cs)
    show ?case
      using step_keys[of s c] Cons.IH[of "step c s"] by (simp only: run.simps) blast
  qed
  then show ?thesis
    unfolding has_key_keys by blast
qed

theorem registries_never_shrink_witness:
  "has_key ''pA'' (connected_peers example_state)
   \<and> has_key ''pA''
       (connected_peers
          (run [DisconnectPeer ''pA'' 70, SioDisconnect ''sockA'' (\<lambda>_. 71), CleanupPass 80000000,
                CancelTransfer ''t1'']
             example_state))
   \<and> has_key ''t1'' (active_transfers example_state)
   \<and> has_key ''t1''
       (active_transfers
          (run [DisconnectPeer ''pA'' 70, SioDisconnect ''sockA'' (\<lambda>_. 71), CleanupPass 80000000,
                CancelTransfer ''t1'']
             example_state))"
proof -
  have a: "has_key ''pA'' (connected_peers example_state)"
    and t: "has_key ''t1'' (active_transfers example_state)"
    by (simp_all add: has_key_def example_state_def)
  show ?thesis
    using a t
      registries_never_shrink[of example_state
        "[DisconnectPeer ''pA'' 70, SioDisconnect ''sockA'' (\<lambda>_. 71), CleanupPass 80000000,
          CancelTransfer ''t1'']" "''pA''"]
      registries_never_shrink[of example_state
        "[DisconnectPeer ''pA'' 70, SioDisconnect ''sockA'' (\<lambda>_. 71), CleanupPass 80000000,
          CancelTransfer ''t1'']" "''t1''"]
    by blast
qed

end
